theory Spec2Isabelle
  imports Complex_Main "HOL-Library.Multiset"
begin

section \<open>The classification engine of \<^verbatim>\<open>src/services/mlEngine.ts\<close>\<close>

text \<open>
  The class \<^verbatim>\<open>MLEngine\<close> standardizes a list of labelled (age, salary) records,
  fits a logistic regression by batch gradient descent and answers logistic-regression,
  k-nearest-neighbour and accuracy queries. Every function of the class is embedded below
  as a HOL function with the name, the order of operations and the constants of the source,
  first over exact reals and then, in the second section, over binary64 numbers.
\<close>

subsection \<open>Numbers\<close>

text \<open>
  A TypeScript \<^verbatim>\<open>number\<close> is a finite value, \<^verbatim>\<open>NaN\<close>, \<^verbatim>\<open>Infinity\<close> or
  \<^verbatim>\<open>-Infinity\<close>. Finite values are idealised as exact reals: rounding and overflow of
  64-bit floats are not modelled, and the two signed zeros are one value. What is modelled is
  everything the source can do to leave the finite values: a division by zero gives
  \<^verbatim>\<open>NaN\<close> or an infinity, never an exception, and the special values propagate
  through the operators as in ECMAScript.
\<close>

datatype number = is_Fin: Fin (fin_val: real) | NaN | PosInf | NegInf

instantiation number :: "{comm_monoid_add, one, minus, uminus, times, inverse, ord}"
begin

definition zero_number :: number where
  "zero_number = Fin 0"

definition one_number :: number where
  "one_number = Fin 1"

fun plus_number :: "number \<Rightarrow> number \<Rightarrow> number" where
  "plus_number (Fin a) (Fin b) = Fin (a + b)"
| "plus_number NaN y = NaN"
| "plus_number x NaN = NaN"
| "plus_number PosInf NegInf = NaN"
| "plus_number NegInf PosInf = NaN"
| "plus_number PosInf y = PosInf"
| "plus_number x PosInf = PosInf"
| "plus_number NegInf y = NegInf"
| "plus_number x NegInf = NegInf"

fun uminus_number :: "number \<Rightarrow> number" where
  "uminus_number (Fin a) = Fin (- a)"
| "uminus_number NaN = NaN"
| "uminus_number PosInf = NegInf"
| "uminus_number NegInf = PosInf"

definition minus_number :: "number \<Rightarrow> number \<Rightarrow> number" where
  "minus_number x y = x + (- y)"

text \<open>The sign of a product or quotient with an infinite operand.\<close>

fun signed_inf :: "bool \<Rightarrow> number" where
  "signed_inf True = PosInf"
| "signed_inf False = NegInf"

fun times_number :: "number \<Rightarrow> number \<Rightarrow> number" where
  "times_number (Fin a) (Fin b) = Fin (a * b)"
| "times_number NaN y = NaN"
| "times_number x NaN = NaN"
| "times_number (Fin a) PosInf = (if a = 0 then NaN else signed_inf (0 < a))"
| "times_number (Fin a) NegInf = (if a = 0 then NaN else signed_inf (a < 0))"
| "times_number PosInf (Fin b) = (if b = 0 then NaN else signed_inf (0 < b))"
| "times_number NegInf (Fin b) = (if b = 0 then NaN else signed_inf (b < 0))"
| "times_number PosInf PosInf = PosInf"
| "times_number NegInf NegInf = PosInf"
| "times_number PosInf NegInf = NegInf"
| "times_number NegInf PosInf = NegInf"

fun divide_number :: "number \<Rightarrow> number \<Rightarrow> number" where
  "divide_number (Fin a) (Fin b) =
     (if b = 0 then (if a = 0 then NaN else signed_inf (0 < a)) else Fin (a / b))"
| "divide_number NaN y = NaN"
| "divide_number x NaN = NaN"
| "divide_number (Fin a) y = Fin 0"
| "divide_number PosInf (Fin b) = signed_inf (0 \<le> b)"
| "divide_number NegInf (Fin b) = signed_inf (b < 0)"
| "divide_number x y = NaN"

definition inverse_number :: "number \<Rightarrow> number" where
  "inverse_number x = divide (Fin 1) x"

fun less_number :: "number \<Rightarrow> number \<Rightarrow> bool" where
  "less_number (Fin a) (Fin b) = (a < b)"
| "less_number NaN y = False"
| "less_number x NaN = False"
| "less_number NegInf NegInf = False"
| "less_number NegInf y = True"
| "less_number PosInf y = False"
| "less_number x PosInf = True"
| "less_number x NegInf = False"

definition less_eq_number :: "number \<Rightarrow> number \<Rightarrow> bool" where
  "less_eq_number x y = (x < y \<or> (x = y \<and> x \<noteq> NaN))"

instance
proof (standard, goal_cases)
  case (1 x y z)
  then show ?case
    by (cases x; cases y; cases z; simp)
next
  case (2 x y)
  then show ?case
    by (cases x; cases y; simp)
next
  case (3 x)
  then show ?case
    by (cases x; simp add: zero_number_def)
qed

end

fun Math_sqrt :: "number \<Rightarrow> number" where
  "Math_sqrt (Fin a) = (if a < 0 then NaN else Fin (sqrt a))"
| "Math_sqrt NaN = NaN"
| "Math_sqrt PosInf = PosInf"
| "Math_sqrt NegInf = NaN"

fun Math_exp :: "number \<Rightarrow> number" where
  "Math_exp (Fin a) = Fin (exp a)"
| "Math_exp NaN = NaN"
| "Math_exp PosInf = PosInf"
| "Math_exp NegInf = Fin 0"

text \<open>
  \<^verbatim>\<open>Math.pow(x, n)\<close> for a natural exponent \<open>n\<close> (the source only calls it with the
  literal 2): the repeated product, with \<^verbatim>\<open>Math.pow(x, 0) = 1\<close> for every \<open>x\<close>.
\<close>

fun Math_pow :: "number \<Rightarrow> nat \<Rightarrow> number" where
  "Math_pow x 0 = 1"
| "Math_pow x (Suc n) = x * Math_pow x n"

text \<open>
  \<^verbatim>\<open>x || y\<close> on numbers: \<open>y\<close> when \<open>x\<close> is falsy (zero or \<^verbatim>\<open>NaN\<close>), else \<open>x\<close>.
\<close>

definition logical_or :: "number \<Rightarrow> number \<Rightarrow> number" where
  "logical_or x y = (if x = Fin 0 \<or> x = NaN then y else x)"

text \<open>The length of an array, and any other count, as a number.\<close>

definition num :: "nat \<Rightarrow> number" where
  "num n = Fin (real n)"

text \<open>
  \<^verbatim>\<open>xs.reduce((a, b) => a + b, 0)\<close>: a fold from the left, starting at 0. With the
  initial value given, the reduction of an empty array is 0, not a \<^verbatim>\<open>TypeError\<close>.
\<close>

definition reduce_sum :: "number list \<Rightarrow> number" where
  "reduce_sum xs = foldl (\<lambda>a b. a + b) 0 xs"

text \<open>
  \<^verbatim>\<open>xs.sort(cmp)\<close>. ECMAScript requires the sort to be stable and reads a comparator
  result that is \<^verbatim>\<open>NaN\<close> as 0; for a consistent comparator every stable algorithm
  returns the list below. An element moves behind a later one only when the comparator
  says it is strictly greater.
\<close>

fun insert_by :: "('a \<Rightarrow> 'a \<Rightarrow> number) \<Rightarrow> 'a \<Rightarrow> 'a list \<Rightarrow> 'a list" where
  "insert_by cmp x [] = [x]"
| "insert_by cmp x (y # ys) =
     (if Fin 0 < cmp x y then y # insert_by cmp x ys else x # y # ys)"

definition Array_sort :: "('a \<Rightarrow> 'a \<Rightarrow> number) \<Rightarrow> 'a list \<Rightarrow> 'a list" where
  "Array_sort cmp xs = foldr (insert_by cmp) xs []"

subsection \<open>Data (\<^verbatim>\<open>src/types.ts\<close>)\<close>

record CustomerData =
  Age :: number
  EstimatedSalary :: number
  Purchased :: number

record ScaleParams =
  mean :: "number \<times> number"
  std :: "number \<times> number"

text \<open>
  The private fields of the class. \<^verbatim>\<open>lrWeights\<close> is a \<^verbatim>\<open>number[]\<close> that always holds
  two elements and is only read at the indices 0 and 1.
\<close>

record MLEngine =
  trainingData :: "CustomerData list"
  scaleParams :: ScaleParams
  lrWeights :: "number list"
  lrBias :: number

text \<open>The object both prediction methods return.\<close>

record Prediction =
  purchased :: bool
  probability :: number

text \<open>
  The objects \<^verbatim>\<open>{ dist, purchased }\<close> that \<^verbatim>\<open>predictKNN\<close> sorts; the label field is
  named \<open>nb_purchased\<close> here, since \<open>purchased\<close> is a field of the result already.
\<close>

record Neighbor =
  dist :: number
  nb_purchased :: number

text \<open>A training record with its standardized features, \<^verbatim>\<open>{ ...d, scaled }\<close>.\<close>

record ScaledData = CustomerData +
  scaled :: "number \<times> number"

datatype algorithm = LR | KNN

subsection \<open>Scaling\<close>

definition calculateScaling :: "MLEngine \<Rightarrow> MLEngine" where
  "calculateScaling e =
     (let ages = map Age (trainingData e);
          salaries = map EstimatedSalary (trainingData e);
          meanAge = reduce_sum ages / num (length ages);
          meanSalary = reduce_sum salaries / num (length salaries);
          stdAge = Math_sqrt (reduce_sum (map (\<lambda>x. Math_pow (x - meanAge) 2) ages)
                     / num (length ages));
          stdSalary = Math_sqrt (reduce_sum (map (\<lambda>x. Math_pow (x - meanSalary) 2) salaries)
                     / num (length salaries))
      in e\<lparr>scaleParams :=
             \<lparr>mean = (meanAge, meanSalary),
              std = (logical_or stdAge 1, logical_or stdSalary 1)\<rparr>\<rparr>)"

definition scale :: "MLEngine \<Rightarrow> number \<Rightarrow> number \<Rightarrow> number \<times> number" where
  "scale e age salary =
     ((age - fst (mean (scaleParams e))) / fst (std (scaleParams e)),
      (salary - snd (mean (scaleParams e))) / snd (std (scaleParams e)))"

subsection \<open>Training\<close>

text \<open>The body of the inner loop: one record's contribution to \<open>(dw1, dw2, db)\<close>.\<close>

definition accumulate ::
  "number \<Rightarrow> number \<Rightarrow> number \<Rightarrow> number \<times> number \<times> number \<Rightarrow> ScaledData
     \<Rightarrow> number \<times> number \<times> number" where
  "accumulate w1 w2 b acc d =
     (case acc of (dw1, dw2, db) \<Rightarrow>
        let z = w1 * fst (scaled d) + w2 * snd (scaled d) + b;
            p = 1 / (1 + Math_exp (- z));
            diff = p - Purchased d
        in (dw1 + diff * fst (scaled d), dw2 + diff * snd (scaled d), db + diff))"

text \<open>The body of the outer loop: the inner loop over all records, then the update.\<close>

definition iteration ::
  "number \<Rightarrow> number \<Rightarrow> ScaledData list \<Rightarrow> number \<times> number \<times> number
     \<Rightarrow> number \<times> number \<times> number" where
  "iteration learningRate m scaledData ws =
     (case ws of (w1, w2, b) \<Rightarrow>
        case foldl (accumulate w1 w2 b) (0, 0, 0) scaledData of (dw1, dw2, db) \<Rightarrow>
          (w1 - (learningRate / m) * dw1,
           w2 - (learningRate / m) * dw2,
           b - (learningRate / m) * db))"

text \<open>\<^verbatim>\<open>for (let i = 0; i < iterations; i++)\<close>.\<close>

function train_loop ::
  "nat \<Rightarrow> nat \<Rightarrow> number \<Rightarrow> number \<Rightarrow> ScaledData list \<Rightarrow> number \<times> number \<times> number
     \<Rightarrow> number \<times> number \<times> number" where
  "train_loop i iterations learningRate m scaledData ws =
     (if i < iterations
      then train_loop (i + 1) iterations learningRate m scaledData
             (iteration learningRate m scaledData ws)
      else ws)"
  by pat_completeness auto
termination
  by (relation "measure (\<lambda>(i, iterations, _). iterations - i)") auto

definition trainLogisticRegression :: "MLEngine \<Rightarrow> MLEngine" where
  "trainLogisticRegression e =
     (let learningRate = Fin 0.1;
          iterations = 1000;
          m = num (length (trainingData e));
          scaledData = map (\<lambda>d. \<lparr>Age = Age d, EstimatedSalary = EstimatedSalary d,
                                  Purchased = Purchased d,
                                  scaled = scale e (Age d) (EstimatedSalary d)\<rparr>)
                         (trainingData e)
      in case train_loop 0 iterations learningRate m scaledData (0, 0, 0) of
           (w1, w2, b) \<Rightarrow> e\<lparr>lrWeights := [w1, w2], lrBias := b\<rparr>)"

subsection \<open>Construction\<close>

text \<open>
  The field initialisers, then the three statements of the constructor. The body has no
  \<^verbatim>\<open>throw\<close>, and nothing it calls raises: arithmetic on numbers returns a number.
\<close>

definition MLEngine_constructor :: "CustomerData list \<Rightarrow> MLEngine" where
  "MLEngine_constructor data =
     (let this = \<lparr>trainingData = [],
                  scaleParams = \<lparr>mean = (0, 0), std = (1, 1)\<rparr>,
                  lrWeights = [0, 0],
                  lrBias = 0\<rparr>;
          this = this\<lparr>trainingData := data\<rparr>;
          this = calculateScaling this
      in trainLogisticRegression this)"

text \<open>
  The interface operation \<^verbatim>\<open>construct\<close>: the outcome of \<^verbatim>\<open>new MLEngine(data)\<close>, an
  error or the engine. \<open>InvalidTrainingSet\<close> is the one error the interface names; the
  constructor has no path that raises, so every outcome is the engine.
\<close>

datatype error = InvalidTrainingSet

definition construct :: "CustomerData list \<Rightarrow> error + MLEngine" where
  "construct data = Inr (MLEngine_constructor data)"

subsection \<open>Prediction\<close>

definition predictLogisticRegression :: "MLEngine \<Rightarrow> number \<Rightarrow> number \<Rightarrow> Prediction" where
  "predictLogisticRegression e age salary =
     (case scale e age salary of (sAge, sSalary) \<Rightarrow>
        let z = lrWeights e ! 0 * sAge + lrWeights e ! 1 * sSalary + lrBias e;
            prob = 1 / (1 + Math_exp (- z))
        in \<lparr>purchased = (Fin 0.5 \<le> prob), probability = prob\<rparr>)"

text \<open>
  The array \<^verbatim>\<open>distances\<close> of \<^verbatim>\<open>predictKNN\<close>, and \<^verbatim>\<open>neighbors\<close>, its first \<open>k\<close>
  entries after the sort.
\<close>

definition distances :: "MLEngine \<Rightarrow> number \<Rightarrow> number \<Rightarrow> Neighbor list" where
  "distances e age salary =
     (case scale e age salary of (sAge, sSalary) \<Rightarrow>
        map (\<lambda>d. case scale e (Age d) (EstimatedSalary d) of (dsAge, dsSalary) \<Rightarrow>
                    \<lparr>dist = Math_sqrt (Math_pow (sAge - dsAge) 2 + Math_pow (sSalary - dsSalary) 2),
                     nb_purchased = Purchased d\<rparr>)
            (trainingData e))"

definition neighbors :: "MLEngine \<Rightarrow> number \<Rightarrow> number \<Rightarrow> nat \<Rightarrow> Neighbor list" where
  "neighbors e age salary k =
     take k (Array_sort (\<lambda>a b. dist a - dist b) (distances e age salary))"

text \<open>
  The parameter \<^verbatim>\<open>k: number = 5\<close> is a count, modelled as a natural number; a call that
  leaves it out passes \<open>None\<close> and gets the default.
\<close>

definition predictKNN :: "MLEngine \<Rightarrow> number \<Rightarrow> number \<Rightarrow> nat option \<Rightarrow> Prediction" where
  "predictKNN e age salary k_arg =
     (let k = (case k_arg of None \<Rightarrow> 5 | Some k \<Rightarrow> k);
          purchasedCount = length (filter (\<lambda>n. nb_purchased n = 1) (neighbors e age salary k))
      in \<lparr>purchased = (num k / Fin 2 < num purchasedCount),
          probability = num purchasedCount / num k\<rparr>)"

subsection \<open>Accuracy\<close>

text \<open>The body of the loop of \<^verbatim>\<open>getAccuracy\<close>: \<open>correct\<close> after one more record.\<close>

definition count_correct :: "MLEngine \<Rightarrow> algorithm \<Rightarrow> nat \<Rightarrow> CustomerData \<Rightarrow> nat" where
  "count_correct e alg correct d =
     (let pred = (if alg = LR
                  then purchased (predictLogisticRegression e (Age d) (EstimatedSalary d))
                  else purchased (predictKNN e (Age d) (EstimatedSalary d) None))
      in if (if pred then 1 else 0) = Purchased d then correct + 1 else correct)"

definition getAccuracy :: "MLEngine \<Rightarrow> algorithm \<Rightarrow> number" where
  "getAccuracy e alg =
     num (foldl (count_correct e alg) 0 (trainingData e)) / num (length (trainingData e))"

section \<open>The same class in binary64 arithmetic\<close>

text \<open>
  The functions above compute with exact reals. Which record is nearer, whether a computed
  standard deviation is zero and whether a sum overflows depend on the rounding of 64-bit
  floats, so the class is embedded a second time with every arithmetic operation rounded as
  IEEE 754 binary64 rounds it. The properties that depend on computed values are stated
  over this second embedding; its functions carry the source names with the suffix \<open>64\<close>.
\<close>

subsection \<open>Rounding\<close>

text \<open>
  Round to nearest, ties to even: \<open>round_even q\<close> is the integer nearest to \<open>q\<close>, the even
  one of the two when \<open>q\<close> lies halfway.
\<close>

definition round_even :: "real \<Rightarrow> int" where
  "round_even q =
     (let f = \<lfloor>q\<rfloor> in
      if q - of_int f < 1 / 2 then f
      else if 1 / 2 < q - of_int f then f + 1
      else if even f then f else f + 1)"

text \<open>
  The spacing of the binary64 numbers around a positive real \<open>a\<close>: 52 fraction bits below
  the leading bit of \<open>a\<close>, and the fixed spacing \<open>2\<^sup>-\<^sup>1\<^sup>0\<^sup>7\<^sup>4\<close> of the subnormal numbers
  below \<open>2\<^sup>-\<^sup>1\<^sup>0\<^sup>2\<^sup>2\<close>.
\<close>

definition ulp :: "real \<Rightarrow> real" where
  "ulp a = 2 powi (max \<lfloor>log 2 a\<rfloor> (- 1022) - 52)"

text \<open>
  The binary64 value of a real: the nearest multiple of the spacing, an infinity when that
  multiple reaches \<open>2\<^sup>1\<^sup>0\<^sup>2\<^sup>4\<close>. The two signed zeros are one value, as above; no
  operation of the class tells them apart, since none divides by a zero that can be
  negative.
\<close>

definition fl :: "real \<Rightarrow> number" where
  "fl x =
     (if x = 0 then Fin 0
      else let y = of_int (round_even (\<bar>x\<bar> / ulp \<bar>x\<bar>)) * ulp \<bar>x\<bar>
           in if 2 ^ 1024 \<le> y then signed_inf (0 < x) else Fin (sgn x * y))"

subsection \<open>Operators\<close>

text \<open>
  \<^verbatim>\<open>+\<close>, \<^verbatim>\<open>-\<close>, \<^verbatim>\<open>*\<close>, \<^verbatim>\<open>/\<close> and \<^verbatim>\<open>Math.sqrt\<close> are correctly rounded: on finite
  operands the result is the rounded exact result, and on \<^verbatim>\<open>NaN\<close>, the infinities and a
  zero divisor it is what the operators of the first embedding give. Negation is exact.
\<close>

definition add64 :: "number \<Rightarrow> number \<Rightarrow> number" where
  "add64 x y = (if is_Fin x \<and> is_Fin y then fl (fin_val x + fin_val y) else x + y)"

definition sub64 :: "number \<Rightarrow> number \<Rightarrow> number" where
  "sub64 x y = add64 x (- y)"

definition mul64 :: "number \<Rightarrow> number \<Rightarrow> number" where
  "mul64 x y = (if is_Fin x \<and> is_Fin y then fl (fin_val x * fin_val y) else x * y)"

definition div64 :: "number \<Rightarrow> number \<Rightarrow> number" where
  "div64 x y =
     (if is_Fin x \<and> is_Fin y \<and> y \<noteq> Fin 0 then fl (fin_val x / fin_val y) else x / y)"

definition Math_sqrt64 :: "number \<Rightarrow> number" where
  "Math_sqrt64 x = (if is_Fin x \<and> 0 \<le> fin_val x then fl (sqrt (fin_val x)) else Math_sqrt x)"

text \<open>
  \<^verbatim>\<open>Math.exp\<close> is implementation-approximated in ECMAScript; it is taken here as the
  rounded exponential, which overflows to \<^verbatim>\<open>Infinity\<close> and underflows to 0 as every
  implementation does. No property below depends on its last bit.
\<close>

definition Math_exp64 :: "number \<Rightarrow> number" where
  "Math_exp64 x = (if is_Fin x then fl (exp (fin_val x)) else Math_exp x)"

text \<open>
  \<^verbatim>\<open>Math.pow(x, n)\<close> for the exponents the source uses: \<^verbatim>\<open>Math.pow(x, 1)\<close> is \<open>x\<close> and
  \<^verbatim>\<open>Math.pow(x, 2)\<close> is the rounded product \<open>x * x\<close>.
\<close>

fun Math_pow64 :: "number \<Rightarrow> nat \<Rightarrow> number" where
  "Math_pow64 x 0 = 1"
| "Math_pow64 x (Suc 0) = x"
| "Math_pow64 x (Suc (Suc n)) = mul64 x (Math_pow64 x (Suc n))"

definition reduce_sum64 :: "number list \<Rightarrow> number" where
  "reduce_sum64 xs = foldl add64 0 xs"

subsection \<open>Scaling, training and construction\<close>

definition calculateScaling64 :: "MLEngine \<Rightarrow> MLEngine" where
  "calculateScaling64 e =
     (let ages = map Age (trainingData e);
          salaries = map EstimatedSalary (trainingData e);
          meanAge = div64 (reduce_sum64 ages) (num (length ages));
          meanSalary = div64 (reduce_sum64 salaries) (num (length salaries));
          stdAge = Math_sqrt64
                     (div64 (reduce_sum64 (map (\<lambda>x. Math_pow64 (sub64 x meanAge) 2) ages))
                            (num (length ages)));
          stdSalary = Math_sqrt64
                     (div64 (reduce_sum64 (map (\<lambda>x. Math_pow64 (sub64 x meanSalary) 2) salaries))
                            (num (length salaries)))
      in e\<lparr>scaleParams :=
             \<lparr>mean = (meanAge, meanSalary),
              std = (logical_or stdAge 1, logical_or stdSalary 1)\<rparr>\<rparr>)"

definition scale64 :: "MLEngine \<Rightarrow> number \<Rightarrow> number \<Rightarrow> number \<times> number" where
  "scale64 e age salary =
     (div64 (sub64 age (fst (mean (scaleParams e)))) (fst (std (scaleParams e))),
      div64 (sub64 salary (snd (mean (scaleParams e)))) (snd (std (scaleParams e))))"

definition accumulate64 ::
  "number \<Rightarrow> number \<Rightarrow> number \<Rightarrow> number \<times> number \<times> number \<Rightarrow> ScaledData
     \<Rightarrow> number \<times> number \<times> number" where
  "accumulate64 w1 w2 b acc d =
     (case acc of (dw1, dw2, db) \<Rightarrow>
        let z = add64 (add64 (mul64 w1 (fst (scaled d))) (mul64 w2 (snd (scaled d)))) b;
            p = div64 1 (add64 1 (Math_exp64 (- z)));
            diff = sub64 p (Purchased d)
        in (add64 dw1 (mul64 diff (fst (scaled d))),
            add64 dw2 (mul64 diff (snd (scaled d))),
            add64 db diff))"

definition iteration64 ::
  "number \<Rightarrow> number \<Rightarrow> ScaledData list \<Rightarrow> number \<times> number \<times> number
     \<Rightarrow> number \<times> number \<times> number" where
  "iteration64 learningRate m scaledData ws =
     (case ws of (w1, w2, b) \<Rightarrow>
        case foldl (accumulate64 w1 w2 b) (0, 0, 0) scaledData of (dw1, dw2, db) \<Rightarrow>
          (sub64 w1 (mul64 (div64 learningRate m) dw1),
           sub64 w2 (mul64 (div64 learningRate m) dw2),
           sub64 b (mul64 (div64 learningRate m) db)))"

function train_loop64 ::
  "nat \<Rightarrow> nat \<Rightarrow> number \<Rightarrow> number \<Rightarrow> ScaledData list \<Rightarrow> number \<times> number \<times> number
     \<Rightarrow> number \<times> number \<times> number" where
  "train_loop64 i iterations learningRate m scaledData ws =
     (if i < iterations
      then train_loop64 (i + 1) iterations learningRate m scaledData
             (iteration64 learningRate m scaledData ws)
      else ws)"
  by pat_completeness auto
termination
  by (relation "measure (\<lambda>(i, iterations, _). iterations - i)") auto

text \<open>The literal \<^verbatim>\<open>0.1\<close> denotes the binary64 number nearest to one tenth.\<close>

definition trainLogisticRegression64 :: "MLEngine \<Rightarrow> MLEngine" where
  "trainLogisticRegression64 e =
     (let learningRate = fl 0.1;
          iterations = 1000;
          m = num (length (trainingData e));
          scaledData = map (\<lambda>d. \<lparr>Age = Age d, EstimatedSalary = EstimatedSalary d,
                                  Purchased = Purchased d,
                                  scaled = scale64 e (Age d) (EstimatedSalary d)\<rparr>)
                         (trainingData e)
      in case train_loop64 0 iterations learningRate m scaledData (0, 0, 0) of
           (w1, w2, b) \<Rightarrow> e\<lparr>lrWeights := [w1, w2], lrBias := b\<rparr>)"

definition MLEngine_constructor64 :: "CustomerData list \<Rightarrow> MLEngine" where
  "MLEngine_constructor64 data =
     (let this = \<lparr>trainingData = [],
                  scaleParams = \<lparr>mean = (0, 0), std = (1, 1)\<rparr>,
                  lrWeights = [0, 0],
                  lrBias = 0\<rparr>;
          this = this\<lparr>trainingData := data\<rparr>;
          this = calculateScaling64 this
      in trainLogisticRegression64 this)"


subsection \<open>Prediction and accuracy\<close>

definition predictLogisticRegression64 :: "MLEngine \<Rightarrow> number \<Rightarrow> number \<Rightarrow> Prediction" where
  "predictLogisticRegression64 e age salary =
     (case scale64 e age salary of (sAge, sSalary) \<Rightarrow>
        let z = add64 (add64 (mul64 (lrWeights e ! 0) sAge) (mul64 (lrWeights e ! 1) sSalary))
                      (lrBias e);
            prob = div64 1 (add64 1 (Math_exp64 (- z)))
        in \<lparr>purchased = (Fin 0.5 \<le> prob), probability = prob\<rparr>)"

definition distances64 :: "MLEngine \<Rightarrow> number \<Rightarrow> number \<Rightarrow> Neighbor list" where
  "distances64 e age salary =
     (case scale64 e age salary of (sAge, sSalary) \<Rightarrow>
        map (\<lambda>d. case scale64 e (Age d) (EstimatedSalary d) of (dsAge, dsSalary) \<Rightarrow>
                    \<lparr>dist = Math_sqrt64 (add64 (Math_pow64 (sub64 sAge dsAge) 2)
                                                (Math_pow64 (sub64 sSalary dsSalary) 2)),
                     nb_purchased = Purchased d\<rparr>)
            (trainingData e))"

definition neighbors64 :: "MLEngine \<Rightarrow> number \<Rightarrow> number \<Rightarrow> nat \<Rightarrow> Neighbor list" where
  "neighbors64 e age salary k =
     take k (Array_sort (\<lambda>a b. sub64 (dist a) (dist b)) (distances64 e age salary))"

definition predictKNN64 :: "MLEngine \<Rightarrow> number \<Rightarrow> number \<Rightarrow> nat option \<Rightarrow> Prediction" where
  "predictKNN64 e age salary k_arg =
     (let k = (case k_arg of None \<Rightarrow> 5 | Some k \<Rightarrow> k);
          purchasedCount = length (filter (\<lambda>n. nb_purchased n = 1) (neighbors64 e age salary k))
      in \<lparr>purchased = (div64 (num k) (Fin 2) < num purchasedCount),
          probability = div64 (num purchasedCount) (num k)\<rparr>)"



section \<open>Notions the properties are stated with\<close>

subsection \<open>Batch gradient descent as the specification words it\<close>

text \<open>
  A standardized record is \<open>(x1, x2, label)\<close>. One iteration sums \<open>diff * x1\<close>,
  \<open>diff * x2\<close> and \<open>diff\<close> over all records in their order, where
  \<open>diff = sigmoid (w1 * x1 + w2 * x2 + b) - label\<close>, and subtracts from each parameter the
  learning rate \<open>\<eta>\<close> times the average of its sum over the \<open>m\<close> records. The average
  times \<open>\<eta>\<close> is taken as \<open>(\<eta> / m) * sum\<close>, the quotient first, which is the order the
  source computes it in. Training is \<open>T\<close> iterations from \<open>w1 = w2 = b = 0\<close>.
\<close>

definition sigmoid64 :: "number \<Rightarrow> number" where
  "sigmoid64 z = div64 1 (add64 1 (Math_exp64 (- z)))"







subsection \<open>Neighbours by position\<close>

text \<open>
  \<^verbatim>\<open>predictKNN\<close> sorts objects that no longer say which record they come from. To name
  the neighbours, the same sort with the same comparator is run on the entries of
  \<^verbatim>\<open>distances\<close> paired with their positions in the training data; the positions of the
  first \<open>k\<close> are the \<open>k\<close> nearest neighbours.
\<close>

definition ranked64 :: "MLEngine \<Rightarrow> number \<Rightarrow> number \<Rightarrow> (nat \<times> Neighbor) list" where
  "ranked64 e age salary =
     Array_sort (\<lambda>a b. sub64 (dist (snd a)) (dist (snd b)))
       (zip [0 ..< length (trainingData e)] (distances64 e age salary))"

definition neighbor_positions64 :: "MLEngine \<Rightarrow> number \<Rightarrow> number \<Rightarrow> nat \<Rightarrow> nat list" where
  "neighbor_positions64 e age salary k = map fst (take k (ranked64 e age salary))"

text \<open>The training set with every age multiplied by \<open>c\<close>.\<close>

definition multiply_ages :: "number \<Rightarrow> CustomerData list \<Rightarrow> CustomerData list" where
  "multiply_ages c ds = map (\<lambda>d. d\<lparr>Age := mul64 c (Age d)\<rparr>) ds"


subsection \<open>Training sets of the examples\<close>



definition constant_age_data :: "CustomerData list" where
  "constant_age_data =
     [\<lparr>Age = fl 30.1, EstimatedSalary = Fin 20000, Purchased = 0\<rparr>,
      \<lparr>Age = fl 30.1, EstimatedSalary = Fin 21000, Purchased = 1\<rparr>,
      \<lparr>Age = fl 30.1, EstimatedSalary = Fin 22000, Purchased = 0\<rparr>]"



definition huge_age_data :: "CustomerData list" where
  "huge_age_data =
     [\<lparr>Age = fl (10 ^ 308), EstimatedSalary = Fin 50000, Purchased = 1\<rparr>,
      \<lparr>Age = fl (10 ^ 308), EstimatedSalary = Fin 50000, Purchased = 1\<rparr>]"

text \<open>
  Collections of facts: the binary64 operators on operands that are not both finite, and
  the traces of binary64 operations at the inputs of the examples.
\<close>

named_theorems special64

named_theorems binary64

section \<open>Basic facts\<close>

subsection \<open>Arithmetic on finite numbers\<close>

declare train_loop.simps [simp del]

lemmas number_defs = zero_number_def one_number_def minus_number_def

lemma Fin_minus [simp]: "Fin a - Fin b = Fin (a - b)"
  by (simp add: minus_number_def)

lemma NaN_minus [simp]: "NaN - x = NaN"
  by (simp add: minus_number_def)

lemma num_Fin [simp]: "num n = Fin (real n)"
  by (simp add: num_def)

lemma Math_pow_2 [simp]: "Math_pow (Fin a) 2 = Fin (a\<^sup>2)"
  by (simp add: numeral_2_eq_2 one_number_def power2_eq_square)

subsection \<open>The training loop as an iterate\<close>

lemma train_loop_funpow:
  "train_loop i n lr m sd ws = ((iteration lr m sd) ^^ (n - i)) ws"
proof (induction i n lr m sd ws rule: train_loop.induct)
  case (1 i n lr m sd ws)
  show ?case
  proof (cases "i < n")
    case True
    then have "n - i = Suc (n - (i + 1))" by simp
    with True 1 show ?thesis
      by (subst train_loop.simps) (simp add: funpow_Suc_right del: funpow.simps)
  next
    case False
    then show ?thesis by (subst train_loop.simps) simp
  qed
qed

lemma funpow_fixed: "f x = x \<Longrightarrow> (f ^^ n) x = x"
  by (induction n) simp_all

subsection \<open>What each constructor step leaves unchanged\<close>

lemma trainingData_calculateScaling [simp]:
  "trainingData (calculateScaling e) = trainingData e"
  by (simp add: calculateScaling_def Let_def)

lemma trainingData_train [simp]:
  "trainingData (trainLogisticRegression e) = trainingData e"
  by (simp add: trainLogisticRegression_def Let_def split: prod.splits)

lemma scaleParams_train [simp]:
  "scaleParams (trainLogisticRegression e) = scaleParams e"
  by (simp add: trainLogisticRegression_def Let_def split: prod.splits)

lemma trainingData_constructor [simp]:
  "trainingData (MLEngine_constructor ds) = ds"
  by (simp add: MLEngine_constructor_def Let_def)

subsection \<open>The engine of the empty training set\<close>

lemma iteration_empty_zero:
  "iteration (Fin 0.1) (Fin 0) [] (Fin 0, Fin 0, Fin 0) = (NaN, NaN, NaN)"
  by (simp add: iteration_def zero_number_def minus_number_def)

lemma iteration_empty_NaN:
  "iteration lr m [] (NaN, NaN, NaN) = (NaN, NaN, NaN)"
  by (simp add: iteration_def)

lemma train_empty:
  "train_loop 0 1000 (Fin 0.1) (Fin 0) [] (Fin 0, Fin 0, Fin 0) = (NaN, NaN, NaN)"
proof -
  have "(1000::nat) = Suc 999" by simp
  then have "((iteration (Fin 0.1) (Fin 0) []) ^^ 1000) (Fin 0, Fin 0, Fin 0)
      = ((iteration (Fin 0.1) (Fin 0) []) ^^ 999)
          (iteration (Fin 0.1) (Fin 0) [] (Fin 0, Fin 0, Fin 0))"
    by (simp only: funpow_Suc_right o_apply)
  also have "\<dots> = (NaN, NaN, NaN)"
    by (simp only: iteration_empty_zero funpow_fixed iteration_empty_NaN)
  finally show ?thesis
    by (simp add: train_loop_funpow)
qed

lemma constructor_empty:
  "MLEngine_constructor [] =
     \<lparr>trainingData = [], scaleParams = \<lparr>mean = (NaN, NaN), std = (Fin 1, Fin 1)\<rparr>,
      lrWeights = [NaN, NaN], lrBias = NaN\<rparr>"
  by (simp add: MLEngine_constructor_def Let_def calculateScaling_def trainLogisticRegression_def
      train_empty reduce_sum_def logical_or_def zero_number_def one_number_def)

subsection \<open>Sorting permutes, so counts over all neighbours are counts over the data\<close>

lemma length_insert_by [simp]: "length (insert_by cmp x ys) = Suc (length ys)"
  by (induction ys) simp_all

lemma length_Array_sort [simp]: "length (Array_sort cmp xs) = length xs"
  by (induction xs) (simp_all add: Array_sort_def)

lemma count_insert_by:
  "length (filter P (insert_by cmp x ys)) = length (filter P (x # ys))"
  by (induction ys) simp_all

lemma count_Array_sort:
  "length (filter P (Array_sort cmp xs)) = length (filter P xs)"
proof (induction xs)
  case Nil
  show ?case by (simp add: Array_sort_def)
next
  case (Cons x xs)
  have "Array_sort cmp (x # xs) = insert_by cmp x (Array_sort cmp xs)"
    by (simp add: Array_sort_def)
  with Cons show ?case
    by (simp add: count_insert_by)
qed

lemma length_distances [simp]:
  "length (distances e age salary) = length (trainingData e)"
  by (simp add: distances_def split: prod.splits)




lemma predictKNN_default: "predictKNN e age salary None = predictKNN e age salary (Some 5)"
  by (simp add: predictKNN_def)


lemma foldl_count_correct:
  "foldl (count_correct e alg) c ds =
     c + length (filter (\<lambda>d. (if (if alg = LR
                  then purchased (predictLogisticRegression e (Age d) (EstimatedSalary d))
                  else purchased (predictKNN e (Age d) (EstimatedSalary d) None)) then 1 else 0) = Purchased d) ds)"
  by (induction ds arbitrary: c) (simp_all add: count_correct_def Let_def)

lemma Fin_le [simp]: "(Fin a \<le> Fin b) = (a \<le> b)"
  by (auto simp: less_eq_number_def)

subsection \<open>Quotients and comparisons of finite numbers\<close>

lemma Fin_div [simp]: "b \<noteq> 0 \<Longrightarrow> Fin a / Fin b = Fin (a / b)"
  by simp

lemma div_Fin_1 [simp]: "x / Fin 1 = x"
  by (cases x) simp_all

lemma NaN_not_le [simp]: "\<not> x \<le> NaN" "\<not> NaN \<le> x"
  by (cases x; simp add: less_eq_number_def)+

section \<open>Facts about binary64 rounding\<close>

subsection \<open>Rounding to an integer\<close>

lemma round_even_near: "\<bar>q - of_int m\<bar> < 1 / 2 \<Longrightarrow> round_even q = m"
proof -
  assume h: "\<bar>q - of_int m\<bar> < 1 / 2"
  show ?thesis
  proof (cases "of_int m \<le> q")
    case True
    with h have "\<lfloor>q\<rfloor> = m" by (simp add: floor_eq_iff)
    with h True show ?thesis by (simp add: round_even_def)
  next
    case False
    with h have f: "\<lfloor>q\<rfloor> = m - 1" by (simp add: floor_eq_iff)
    from h False have "1 / 2 < q - of_int (m - 1)" by simp
    with f show ?thesis by (simp add: round_even_def)
  qed
qed

lemma round_even_tie:
  "q = of_int f + 1 / 2 \<Longrightarrow> m = (if even f then f else f + 1) \<Longrightarrow> round_even q = m"
proof -
  assume h: "q = of_int f + 1 / 2" "m = (if even f then f else f + 1)"
  then have "\<lfloor>q\<rfloor> = f" by (simp add: floor_eq_iff)
  with h show ?thesis by (simp add: round_even_def)
qed

lemma round_even_floor: "\<lfloor>q\<rfloor> \<le> round_even q" "round_even q \<le> \<lfloor>q\<rfloor> + 1"
  by (simp_all add: round_even_def Let_def)

lemma round_even_ge: "of_int n \<le> q \<Longrightarrow> n \<le> round_even q"
proof -
  assume "of_int n \<le> q"
  then have "n \<le> \<lfloor>q\<rfloor>" by (simp add: le_floor_iff)
  with round_even_floor(1) [of q] show ?thesis by simp
qed

lemma round_even_le: "q \<le> of_int n \<Longrightarrow> round_even q \<le> n"
proof (cases "q = of_int n")
  case True
  then show ?thesis by (simp add: round_even_def)
next
  case False
  assume "q \<le> of_int n"
  with False have "q < of_int n" by simp
  then have "\<lfloor>q\<rfloor> < n" by (simp add: floor_less_iff)
  with round_even_floor(2) [of q] show ?thesis by simp
qed

lemma round_even_nonneg: "0 \<le> q \<Longrightarrow> 0 \<le> round_even q"
  using round_even_ge [of 0 q] by simp

subsection \<open>The spacing\<close>

lemma ulp_pos [simp]: "0 < ulp a"
  by (simp add: ulp_def)

lemma ulp_neq0 [simp]: "ulp a \<noteq> 0"
  by (simp add: ulp_def)

lemma floor_log2:
  assumes "2 powi e \<le> a" "a < 2 powi (e + 1)"
  shows "\<lfloor>log 2 a\<rfloor> = e"
proof -
  have "0 < (2::real) powi e" by simp
  with assms have pos: "0 < a" by linarith
  have "(2::real) powr (of_int e + 1) = 2 powi (e + 1)"
    using powr_real_of_int' [of 2 "e + 1"] by simp
  with assms show ?thesis
    using floor_log_eq_powr_iff [OF pos, of 2 e] by (simp add: powr_real_of_int')
qed

lemma powi_floor_log2:
  assumes "0 < a"
  shows "2 powi \<lfloor>log 2 a\<rfloor> \<le> a"
  using floor_log_eq_powr_iff [OF assms, of 2 "\<lfloor>log 2 a\<rfloor>"] by (simp add: powr_real_of_int')

lemma ulp_normal:
  "2 powi e \<le> a \<Longrightarrow> a < 2 powi (e + 1) \<Longrightarrow> - 1022 \<le> e \<Longrightarrow> ulp a = 2 powi (e - 52)"
  by (simp add: ulp_def floor_log2)

subsection \<open>The value of a rounding\<close>

lemma fl_zero [simp]: "fl 0 = Fin 0"
  by (simp add: fl_def)

lemma fl_minus: "fl (- x) = - fl x"
proof -
  consider "x = 0" | "0 < x" | "x < 0" by linarith
  then show ?thesis
  proof cases
    case 1
    then show ?thesis by (simp add: fl_def)
  next
    case 2
    then show ?thesis by (simp add: fl_def Let_def)
  next
    case 3
    then show ?thesis by (simp add: fl_def Let_def)
  qed
qed

lemma fl_pos:
  assumes "2 powi e \<le> x" "x < 2 powi (e + 1)" "- 1022 \<le> e"
    and "round_even (x / 2 powi (e - 52)) = m"
    and "of_int m * 2 powi (e - 52) < (2::real) ^ 1024"
  shows "fl x = Fin (of_int m * 2 powi (e - 52))"
proof -
  have "0 < (2::real) powi e" by simp
  with assms have pos: "0 < x" by linarith
  have u: "ulp x = 2 powi (e - 52)" using assms(1-3) by (rule ulp_normal)
  from pos u assms(4,5) show ?thesis by (simp add: fl_def Let_def)
qed

lemma fl_neg:
  assumes "2 powi e \<le> - x" "- x < 2 powi (e + 1)" "- 1022 \<le> e"
    and "round_even (- x / 2 powi (e - 52)) = m"
    and "of_int m * 2 powi (e - 52) < (2::real) ^ 1024"
  shows "fl x = Fin (- (of_int m * 2 powi (e - 52)))"
proof -
  have "fl (- x) = Fin (of_int m * 2 powi (e - 52))"
    using assms by (rule fl_pos)
  then have "- fl x = Fin (of_int m * 2 powi (e - 52))"
    by (simp add: fl_minus)
  then show ?thesis
    by (cases "fl x") simp_all
qed

lemma fl_sqrt:
  assumes "(2 powi e)\<^sup>2 \<le> v" "v < (2 powi (e + 1))\<^sup>2" "- 1022 \<le> e"
    and "((of_int m - 1 / 2) * 2 powi (e - 52))\<^sup>2 < v"
    and "v < ((of_int m + 1 / 2) * 2 powi (e - 52))\<^sup>2"
    and "0 < m"
    and "of_int m * 2 powi (e - 52) < (2::real) ^ 1024"
  shows "fl (sqrt v) = Fin (of_int m * 2 powi (e - 52))"
proof (rule fl_pos)
  show "2 powi e \<le> sqrt v"
    using assms(1) by (simp add: real_le_rsqrt)
  show "sqrt v < 2 powi (e + 1)"
    using assms(2) by (simp add: real_less_lsqrt)
  show "- 1022 \<le> e" by fact
  show "of_int m * 2 powi (e - 52) < (2::real) ^ 1024" by fact
  have u: "0 < (2::real) powi (e - 52)" by simp
  have "0 \<le> (of_int m - 1 / 2) * (2::real) powi (e - 52)"
    using assms(6) by simp
  then have lo: "(of_int m - 1 / 2) * 2 powi (e - 52) < sqrt v"
    using assms(4) by (simp add: real_less_rsqrt)
  have "0 \<le> (of_int m + 1 / 2) * (2::real) powi (e - 52)"
    using assms(6) by simp
  then have hi: "sqrt v < (of_int m + 1 / 2) * 2 powi (e - 52)"
    using assms(5) by (simp add: real_less_lsqrt)
  from lo u have "of_int m - 1 / 2 < sqrt v / 2 powi (e - 52)"
    by (simp add: pos_less_divide_eq)
  moreover from hi u have "sqrt v / 2 powi (e - 52) < of_int m + 1 / 2"
    by (simp add: pos_divide_less_eq)
  ultimately have "\<bar>sqrt v / 2 powi (e - 52) - of_int m\<bar> < 1 / 2"
    by linarith
  then show "round_even (sqrt v / 2 powi (e - 52)) = m"
    by (rule round_even_near)
qed

subsection \<open>Sign and size of a rounding\<close>

lemma rounded_nonneg: "0 \<le> of_int (round_even (\<bar>x\<bar> / ulp \<bar>x\<bar>)) * ulp \<bar>x\<bar>"
  by (simp add: round_even_nonneg less_imp_le)


lemma fl_pos_cases: "0 < x \<Longrightarrow> fl x = PosInf \<or> (\<exists>y. fl x = Fin y \<and> 0 \<le> y)"
  using rounded_nonneg [of x] by (auto simp add: fl_def Let_def)

text \<open>A positive real in the normal range rounds to at least the power of two below it.\<close>

lemma rounded_lower:
  assumes "0 < x" "0 \<le> \<lfloor>log 2 x\<rfloor>"
  shows "2 powi \<lfloor>log 2 x\<rfloor> \<le> of_int (round_even (x / ulp x)) * ulp x"
proof -
  let ?e = "\<lfloor>log 2 x\<rfloor>"
  have u: "ulp x = 2 powi (?e - 52)"
    using assms(2) by (simp add: ulp_def max_def)
  have "2 powi ?e / 2 powi (?e - 52) \<le> x / 2 powi (?e - 52)"
    using powi_floor_log2 [OF assms(1)] by (simp add: divide_right_mono)
  moreover have "2 powi ?e / 2 powi (?e - 52) = (2::real) ^ 52"
    by (simp add: power_int_diff)
  ultimately have "of_int (2 ^ 52) \<le> x / 2 powi (?e - 52)"
    by simp
  then have "2 ^ 52 \<le> round_even (x / 2 powi (?e - 52))"
    by (rule round_even_ge)
  then have "(of_int (2 ^ 52) :: real) \<le> of_int (round_even (x / 2 powi (?e - 52)))"
    by (simp only: of_int_le_iff)
  then have m: "(2::real) ^ 52 \<le> of_int (round_even (x / 2 powi (?e - 52)))"
    by simp
  have "(2::real) powi ?e = 2 ^ 52 * 2 powi (?e - 52)"
    by (simp add: power_int_diff)
  also have "\<dots> \<le> of_int (round_even (x / 2 powi (?e - 52))) * 2 powi (?e - 52)"
    using m by (intro mult_right_mono) simp_all
  finally show ?thesis
    by (simp only: u)
qed

lemma fl_ge_one:
  assumes "1 \<le> x"
  shows "fl x = PosInf \<or> (\<exists>v. fl x = Fin v \<and> 1 \<le> v)"
proof -
  have pos: "0 < x" using assms by simp
  have e: "0 \<le> \<lfloor>log 2 x\<rfloor>"
    using assms by simp
  then have "(1::real) \<le> 2 powi \<lfloor>log 2 x\<rfloor>"
    by (simp add: one_le_power_int)
  with rounded_lower [OF pos e] have "1 \<le> of_int (round_even (x / ulp x)) * ulp x"
    by linarith
  with pos show ?thesis
    by (auto simp add: fl_def Let_def)
qed

lemma fl_overflow:
  assumes "2 ^ 1024 \<le> x"
  shows "fl x = PosInf"
proof -
  have pos: "0 < x"
    using assms by (rule less_le_trans [rotated]) simp
  have "(2::real) powi 1024 \<le> x"
    using assms by simp
  then have "of_int 1024 \<le> log 2 x"
    using pos by (simp add: le_log_iff powr_real_of_int')
  then have e: "1024 \<le> \<lfloor>log 2 x\<rfloor>"
    by (simp add: le_floor_iff)
  then have "(2::real) powi 1024 \<le> 2 powi \<lfloor>log 2 x\<rfloor>"
    by (intro power_int_increasing) simp_all
  moreover from e have "0 \<le> \<lfloor>log 2 x\<rfloor>" by simp
  ultimately have "2 ^ 1024 \<le> of_int (round_even (x / ulp x)) * ulp x"
    using rounded_lower [OF pos] by simp
  with pos show ?thesis
    by (simp add: fl_def Let_def)
qed

lemma fl_overflow_neg:
  assumes "x \<le> - (2 ^ 1024)"
  shows "fl x = NegInf"
proof -
  have "fl (- x) = PosInf"
    using assms by (intro fl_overflow) simp
  then have "- fl x = PosInf"
    by (simp add: fl_minus)
  then show ?thesis
    by (cases "fl x") simp_all
qed

lemma fl_le_one:
  assumes "0 < x" "x \<le> 1"
  shows "\<exists>r. fl x = Fin r \<and> 0 \<le> r \<and> r \<le> 1"
proof -
  let ?E = "max \<lfloor>log 2 x\<rfloor> (- 1022)"
  have "log 2 x \<le> 0"
    using assms by simp
  then have "\<lfloor>log 2 x\<rfloor> \<le> 0"
    by (simp add: floor_le_iff)
  then have E: "?E \<le> 0" by simp
  have u: "ulp x = 2 powi (?E - 52)"
    by (simp add: ulp_def)
  have inv: "1 / ulp x = of_int (2 ^ nat (52 - ?E))"
  proof -
    have "1 / ulp x = (2::real) powi (52 - ?E)"
      unfolding u by (simp add: power_int_diff field_simps)
    also have "\<dots> = 2 ^ nat (52 - ?E)"
      using E by (simp add: power_int_def)
    finally show ?thesis by simp
  qed
  have "x / ulp x \<le> 1 / ulp x"
    using assms(2) by (simp add: divide_right_mono less_imp_le)
  then have "round_even (x / ulp x) \<le> 2 ^ nat (52 - ?E)"
    unfolding inv by (rule round_even_le)
  then have "(of_int (round_even (x / ulp x)) :: real) \<le> of_int (2 ^ nat (52 - ?E))"
    by (simp only: of_int_le_iff)
  then have "of_int (round_even (x / ulp x)) * ulp x \<le> of_int (2 ^ nat (52 - ?E)) * ulp x"
    by (simp add: mult_right_mono less_imp_le)
  also have "\<dots> = 1"
    unfolding inv [symmetric] by simp
  finally have le: "of_int (round_even (x / ulp x)) * ulp x \<le> 1" .
  have "(1::real) < 2 ^ 1024" by simp
  with le have "\<not> 2 ^ 1024 \<le> of_int (round_even (x / ulp x)) * ulp x"
    by linarith
  with le assms(1) rounded_nonneg [of x] show ?thesis
    by (simp add: fl_def Let_def)
qed

lemma fl_one [simp]: "fl 1 = Fin 1"
  using fl_ge_one [of 1] fl_le_one [of 1] by auto

subsection \<open>The operators on finite and on special operands\<close>

lemma add64_Fin: "add64 (Fin a) (Fin b) = fl (a + b)"
  by (simp add: add64_def)

lemma sub64_Fin: "sub64 (Fin a) (Fin b) = fl (a - b)"
  by (simp add: sub64_def add64_def)

lemma mul64_Fin: "mul64 (Fin a) (Fin b) = fl (a * b)"
  by (simp add: mul64_def)

lemma div64_Fin: "b \<noteq> 0 \<Longrightarrow> div64 (Fin a) (Fin b) = fl (a / b)"
  by (simp add: div64_def)

lemma Math_sqrt64_Fin: "0 \<le> a \<Longrightarrow> Math_sqrt64 (Fin a) = fl (sqrt a)"
  by (simp add: Math_sqrt64_def)

lemma Math_pow64_2: "Math_pow64 x 2 = mul64 x x"
  by (simp add: numeral_2_eq_2)

lemma NaN_absorbs [simp]:
  "x + NaN = NaN" "NaN + x = NaN" "x * NaN = NaN" "NaN * x = NaN"
  "x / NaN = NaN" "NaN / x = NaN" "x - NaN = NaN"
  by (cases x; simp add: minus_number_def)+

lemma add64_special [special64]: "\<not> (is_Fin x \<and> is_Fin y) \<Longrightarrow> add64 x y = x + y"
  by (auto simp add: add64_def)

lemma sub64_special [special64]: "\<not> (is_Fin x \<and> is_Fin y) \<Longrightarrow> sub64 x y = x - y"
  by (cases y) (auto simp add: sub64_def add64_def minus_number_def)

lemma mul64_special [special64]: "\<not> (is_Fin x \<and> is_Fin y) \<Longrightarrow> mul64 x y = x * y"
  by (auto simp add: mul64_def)

lemma div64_special [special64]: "\<not> (is_Fin x \<and> is_Fin y) \<Longrightarrow> div64 x y = x / y"
  by (auto simp add: div64_def)

lemma div64_zero [special64]: "div64 x (Fin 0) = x / Fin 0"
  by (simp add: div64_def)

lemma Math_sqrt64_special [special64]: "\<not> is_Fin x \<Longrightarrow> Math_sqrt64 x = Math_sqrt x"
  by (simp add: Math_sqrt64_def)

lemma Math_exp64_special [special64]: "\<not> is_Fin x \<Longrightarrow> Math_exp64 x = Math_exp x"
  by (simp add: Math_exp64_def)

lemma sub64_self [simp]: "sub64 (Fin a) (Fin a) = Fin 0"
  by (simp add: sub64_Fin)



lemma number_less_irrefl [simp]: "\<not> (x::number) < x"
  by (cases x) simp_all


subsection \<open>The logistic function\<close>

lemma sigmoid64_Fin: "\<exists>r. sigmoid64 (Fin a) = Fin r \<and> 0 \<le> r \<and> r \<le> 1"
proof -
  have "0 < exp (- a)" by simp
  then consider "fl (exp (- a)) = PosInf" | y where "fl (exp (- a)) = Fin y" "0 \<le> y"
    using fl_pos_cases by blast
  then show ?thesis
  proof cases
    case 1
    then show ?thesis
      by (simp add: sigmoid64_def Math_exp64_def one_number_def special64)
  next
    case 2
    then have "1 \<le> 1 + y" by simp
    then consider "fl (1 + y) = PosInf" | v where "fl (1 + y) = Fin v" "1 \<le> v"
      using fl_ge_one by blast
    then show ?thesis
    proof cases
      case 1
      with 2 show ?thesis
        by (simp add: sigmoid64_def Math_exp64_def one_number_def add64_Fin special64)
    next
      case (2 v)
      then have "0 < 1 / v" "1 / v \<le> 1" by simp_all
      then obtain r where "fl (1 / v) = Fin r" "0 \<le> r" "r \<le> 1"
        using fl_le_one by blast
      with 2 \<open>fl (exp (- a)) = Fin y\<close> show ?thesis
        by (simp add: sigmoid64_def Math_exp64_def one_number_def add64_Fin div64_Fin)
    qed
  qed
qed

lemma sigmoid64_cases:
  "(sigmoid64 z = NaN) = (z = NaN)"
  "sigmoid64 z = NaN \<or> (Fin 0 \<le> sigmoid64 z \<and> sigmoid64 z \<le> Fin 1)"
proof -
  show "(sigmoid64 z = NaN) = (z = NaN)"
    using sigmoid64_Fin [of "fin_val z"]
    by (cases z) (auto simp add: sigmoid64_def one_number_def add64_Fin div64_Fin special64)
  show "sigmoid64 z = NaN \<or> (Fin 0 \<le> sigmoid64 z \<and> sigmoid64 z \<le> Fin 1)"
    using sigmoid64_Fin [of "fin_val z"]
    by (cases z) (auto simp add: sigmoid64_def one_number_def add64_Fin div64_Fin special64)
qed

section \<open>Traces of binary64 operations\<close>

text \<open>
  Each fact below is one rounded operation at the operands that occur when the engine is
  built and queried at one of the example training sets. It is proved from the definition
  of the rounding, given the binary exponent of the exact result and its rounded
  significand.
\<close>

subsection \<open>The quotients of the votes\<close>

lemma vote_1 [binary64]:
  "div64 (Fin 1) (Fin 2) = Fin (1 / 2)"
  apply (subst div64_Fin)
   apply simp
  apply (rule fl_pos [where e = "- 1" and m = "4503599627370496", THEN trans])
       apply simp
      apply simp
     apply simp
    apply (rule round_even_near)
    apply simp
   apply simp
  apply simp
  done

lemma vote_2 [binary64]:
  "div64 (Fin 0) (Fin 1) = Fin 0"
  by (simp add: div64_Fin)

lemma vote_3 [binary64]:
  "div64 (Fin 1) (Fin 1) = Fin 1"
  apply (subst div64_Fin)
   apply simp
  apply (rule fl_pos [where e = "0" and m = "4503599627370496", THEN trans])
       apply simp
      apply simp
     apply simp
    apply (rule round_even_near)
    apply simp
   apply simp
  apply simp
  done

lemma vote_4 [binary64]:
  "div64 (Fin 2) (Fin 2) = Fin 1"
  apply (subst div64_Fin)
   apply simp
  apply (rule fl_pos [where e = "0" and m = "4503599627370496", THEN trans])
       apply simp
      apply simp
     apply simp
    apply (rule round_even_near)
    apply simp
   apply simp
  apply simp
  done

lemma vote_5 [binary64]:
  "div64 (Fin 0) (Fin 2) = Fin 0"
  by (simp add: div64_Fin)

lemma vote_6 [binary64]:
  "div64 (Fin 5) (Fin 2) = Fin (5 / 2)"
  apply (subst div64_Fin)
   apply simp
  apply (rule fl_pos [where e = "1" and m = "5629499534213120", THEN trans])
       apply simp
      apply simp
     apply simp
    apply (rule round_even_near)
    apply simp
   apply simp
  apply simp
  done

subsection \<open>The tied vote and the query (40, 80000)\<close>

lemma tied_vote_1 [binary64]:
  "add64 (Fin 0) (Fin 20) = Fin 20"
  unfolding add64_Fin
  apply (rule fl_pos [where e = "4" and m = "5629499534213120", THEN trans])
       apply simp
      apply simp
     apply simp
    apply (rule round_even_near)
    apply simp
   apply simp
  apply simp
  done

lemma tied_vote_2 [binary64]:
  "add64 (Fin 20) (Fin 60) = Fin 80"
  unfolding add64_Fin
  apply (rule fl_pos [where e = "6" and m = "5629499534213120", THEN trans])
       apply simp
      apply simp
     apply simp
    apply (rule round_even_near)
    apply simp
   apply simp
  apply simp
  done

lemma tied_vote_3 [binary64]:
  "div64 (Fin 80) (Fin 2) = Fin 40"
  apply (subst div64_Fin)
   apply simp
  apply (rule fl_pos [where e = "5" and m = "5629499534213120", THEN trans])
       apply simp
      apply simp
     apply simp
    apply (rule round_even_near)
    apply simp
   apply simp
  apply simp
  done

lemma tied_vote_4 [binary64]:
  "sub64 (Fin 20) (Fin 40) = Fin (- 20)"
  unfolding sub64_Fin
  apply (rule fl_neg [where e = "4" and m = "5629499534213120", THEN trans])
       apply simp
      apply simp
     apply simp
    apply (rule round_even_near)
    apply simp
   apply simp
  apply simp
  done

lemma tied_vote_5 [binary64]:
  "mul64 (Fin (- 20)) (Fin (- 20)) = Fin 400"
  unfolding mul64_Fin
  apply (rule fl_pos [where e = "8" and m = "7036874417766400", THEN trans])
       apply simp
      apply simp
     apply simp
    apply (rule round_even_near)
    apply simp
   apply simp
  apply simp
  done

lemma tied_vote_6 [binary64]:
  "add64 (Fin 0) (Fin 400) = Fin 400"
  unfolding add64_Fin
  apply (rule fl_pos [where e = "8" and m = "7036874417766400", THEN trans])
       apply simp
      apply simp
     apply simp
    apply (rule round_even_near)
    apply simp
   apply simp
  apply simp
  done

lemma tied_vote_7 [binary64]:
  "sub64 (Fin 60) (Fin 40) = Fin 20"
  unfolding sub64_Fin
  apply (rule fl_pos [where e = "4" and m = "5629499534213120", THEN trans])
       apply simp
      apply simp
     apply simp
    apply (rule round_even_near)
    apply simp
   apply simp
  apply simp
  done

lemma tied_vote_8 [binary64]:
  "mul64 (Fin 20) (Fin 20) = Fin 400"
  unfolding mul64_Fin
  apply (rule fl_pos [where e = "8" and m = "7036874417766400", THEN trans])
       apply simp
      apply simp
     apply simp
    apply (rule round_even_near)
    apply simp
   apply simp
  apply simp
  done

lemma tied_vote_9 [binary64]:
  "add64 (Fin 400) (Fin 400) = Fin 800"
  unfolding add64_Fin
  apply (rule fl_pos [where e = "9" and m = "7036874417766400", THEN trans])
       apply simp
      apply simp
     apply simp
    apply (rule round_even_near)
    apply simp
   apply simp
  apply simp
  done

lemma tied_vote_10 [binary64]:
  "div64 (Fin 800) (Fin 2) = Fin 400"
  apply (subst div64_Fin)
   apply simp
  apply (rule fl_pos [where e = "8" and m = "7036874417766400", THEN trans])
       apply simp
      apply simp
     apply simp
    apply (rule round_even_near)
    apply simp
   apply simp
  apply simp
  done

lemma tied_vote_11 [binary64]:
  "Math_sqrt64 (Fin 400) = Fin 20"
  apply (subst Math_sqrt64_Fin)
   apply simp
  apply (rule fl_sqrt [where e = "4" and m = "5629499534213120", THEN trans])
         apply (simp add: power2_eq_square)
         apply (simp add: power2_eq_square)
         apply (simp add: power2_eq_square)
         apply (simp add: power2_eq_square)
         apply (simp add: power2_eq_square)
         apply (simp add: power2_eq_square)
         apply (simp add: power2_eq_square)
         apply (simp add: power2_eq_square)
  done

lemma tied_vote_12 [binary64]:
  "add64 (Fin 0) (Fin 20000) = Fin 20000"
  unfolding add64_Fin
  apply (rule fl_pos [where e = "14" and m = "5497558138880000", THEN trans])
       apply simp
      apply simp
     apply simp
    apply (rule round_even_near)
    apply simp
   apply simp
  apply simp
  done

lemma tied_vote_13 [binary64]:
  "add64 (Fin 20000) (Fin 140000) = Fin 160000"
  unfolding add64_Fin
  apply (rule fl_pos [where e = "17" and m = "5497558138880000", THEN trans])
       apply simp
      apply simp
     apply simp
    apply (rule round_even_near)
    apply simp
   apply simp
  apply simp
  done

lemma tied_vote_14 [binary64]:
  "div64 (Fin 160000) (Fin 2) = Fin 80000"
  apply (subst div64_Fin)
   apply simp
  apply (rule fl_pos [where e = "16" and m = "5497558138880000", THEN trans])
       apply simp
      apply simp
     apply simp
    apply (rule round_even_near)
    apply simp
   apply simp
  apply simp
  done

lemma tied_vote_15 [binary64]:
  "sub64 (Fin 20000) (Fin 80000) = Fin (- 60000)"
  unfolding sub64_Fin
  apply (rule fl_neg [where e = "15" and m = "8246337208320000", THEN trans])
       apply simp
      apply simp
     apply simp
    apply (rule round_even_near)
    apply simp
   apply simp
  apply simp
  done

lemma tied_vote_16 [binary64]:
  "mul64 (Fin (- 60000)) (Fin (- 60000)) = Fin 3600000000"
  unfolding mul64_Fin
  apply (rule fl_pos [where e = "31" and m = "7549747200000000", THEN trans])
       apply simp
      apply simp
     apply simp
    apply (rule round_even_near)
    apply simp
   apply simp
  apply simp
  done

lemma tied_vote_17 [binary64]:
  "add64 (Fin 0) (Fin 3600000000) = Fin 3600000000"
  unfolding add64_Fin
  apply (rule fl_pos [where e = "31" and m = "7549747200000000", THEN trans])
       apply simp
      apply simp
     apply simp
    apply (rule round_even_near)
    apply simp
   apply simp
  apply simp
  done

lemma tied_vote_18 [binary64]:
  "sub64 (Fin 140000) (Fin 80000) = Fin 60000"
  unfolding sub64_Fin
  apply (rule fl_pos [where e = "15" and m = "8246337208320000", THEN trans])
       apply simp
      apply simp
     apply simp
    apply (rule round_even_near)
    apply simp
   apply simp
  apply simp
  done

lemma tied_vote_19 [binary64]:
  "mul64 (Fin 60000) (Fin 60000) = Fin 3600000000"
  unfolding mul64_Fin
  apply (rule fl_pos [where e = "31" and m = "7549747200000000", THEN trans])
       apply simp
      apply simp
     apply simp
    apply (rule round_even_near)
    apply simp
   apply simp
  apply simp
  done

lemma tied_vote_20 [binary64]:
  "add64 (Fin 3600000000) (Fin 3600000000) = Fin 7200000000"
  unfolding add64_Fin
  apply (rule fl_pos [where e = "32" and m = "7549747200000000", THEN trans])
       apply simp
      apply simp
     apply simp
    apply (rule round_even_near)
    apply simp
   apply simp
  apply simp
  done

lemma tied_vote_21 [binary64]:
  "div64 (Fin 7200000000) (Fin 2) = Fin 3600000000"
  apply (subst div64_Fin)
   apply simp
  apply (rule fl_pos [where e = "31" and m = "7549747200000000", THEN trans])
       apply simp
      apply simp
     apply simp
    apply (rule round_even_near)
    apply simp
   apply simp
  apply simp
  done

lemma tied_vote_22 [binary64]:
  "Math_sqrt64 (Fin 3600000000) = Fin 60000"
  apply (subst Math_sqrt64_Fin)
   apply simp
  apply (rule fl_sqrt [where e = "15" and m = "8246337208320000", THEN trans])
         apply (simp add: power2_eq_square)
         apply (simp add: power2_eq_square)
         apply (simp add: power2_eq_square)
         apply (simp add: power2_eq_square)
         apply (simp add: power2_eq_square)
         apply (simp add: power2_eq_square)
         apply (simp add: power2_eq_square)
         apply (simp add: power2_eq_square)
  done

lemma tied_vote_23 [binary64]:
  "sub64 (Fin 40) (Fin 40) = Fin 0"
  by (simp add: sub64_Fin)

lemma tied_vote_24 [binary64]:
  "div64 (Fin 0) (Fin 20) = Fin 0"
  by (simp add: div64_Fin)

lemma tied_vote_25 [binary64]:
  "sub64 (Fin 80000) (Fin 80000) = Fin 0"
  by (simp add: sub64_Fin)

lemma tied_vote_26 [binary64]:
  "div64 (Fin 0) (Fin 60000) = Fin 0"
  by (simp add: div64_Fin)

lemma tied_vote_27 [binary64]:
  "div64 (Fin (- 20)) (Fin 20) = Fin (- 1)"
  apply (subst div64_Fin)
   apply simp
  apply (rule fl_neg [where e = "0" and m = "4503599627370496", THEN trans])
       apply simp
      apply simp
     apply simp
    apply (rule round_even_near)
    apply simp
   apply simp
  apply simp
  done

lemma tied_vote_28 [binary64]:
  "div64 (Fin (- 60000)) (Fin 60000) = Fin (- 1)"
  apply (subst div64_Fin)
   apply simp
  apply (rule fl_neg [where e = "0" and m = "4503599627370496", THEN trans])
       apply simp
      apply simp
     apply simp
    apply (rule round_even_near)
    apply simp
   apply simp
  apply simp
  done

lemma tied_vote_29 [binary64]:
  "sub64 (Fin 0) (Fin (- 1)) = Fin 1"
  unfolding sub64_Fin
  apply (rule fl_pos [where e = "0" and m = "4503599627370496", THEN trans])
       apply simp
      apply simp
     apply simp
    apply (rule round_even_near)
    apply simp
   apply simp
  apply simp
  done

lemma tied_vote_30 [binary64]:
  "mul64 (Fin 1) (Fin 1) = Fin 1"
  unfolding mul64_Fin
  apply (rule fl_pos [where e = "0" and m = "4503599627370496", THEN trans])
       apply simp
      apply simp
     apply simp
    apply (rule round_even_near)
    apply simp
   apply simp
  apply simp
  done

lemma tied_vote_31 [binary64]:
  "add64 (Fin 1) (Fin 1) = Fin 2"
  unfolding add64_Fin
  apply (rule fl_pos [where e = "1" and m = "4503599627370496", THEN trans])
       apply simp
      apply simp
     apply simp
    apply (rule round_even_near)
    apply simp
   apply simp
  apply simp
  done

lemma tied_vote_32 [binary64]:
  "Math_sqrt64 (Fin 2) = Fin (6369051672525773 / 4503599627370496)"
  apply (subst Math_sqrt64_Fin)
   apply simp
  apply (rule fl_sqrt [where e = "0" and m = "6369051672525773", THEN trans])
         apply (simp add: power2_eq_square)
         apply (simp add: power2_eq_square)
         apply (simp add: power2_eq_square)
         apply (simp add: power2_eq_square)
         apply (simp add: power2_eq_square)
         apply (simp add: power2_eq_square)
         apply (simp add: power2_eq_square)
         apply (simp add: power2_eq_square)
  done

lemma tied_vote_33 [binary64]:
  "div64 (Fin 20) (Fin 20) = Fin 1"
  apply (subst div64_Fin)
   apply simp
  apply (rule fl_pos [where e = "0" and m = "4503599627370496", THEN trans])
       apply simp
      apply simp
     apply simp
    apply (rule round_even_near)
    apply simp
   apply simp
  apply simp
  done

lemma tied_vote_34 [binary64]:
  "div64 (Fin 60000) (Fin 60000) = Fin 1"
  apply (subst div64_Fin)
   apply simp
  apply (rule fl_pos [where e = "0" and m = "4503599627370496", THEN trans])
       apply simp
      apply simp
     apply simp
    apply (rule round_even_near)
    apply simp
   apply simp
  apply simp
  done

lemma tied_vote_35 [binary64]:
  "sub64 (Fin 0) (Fin 1) = Fin (- 1)"
  unfolding sub64_Fin
  apply (rule fl_neg [where e = "0" and m = "4503599627370496", THEN trans])
       apply simp
      apply simp
     apply simp
    apply (rule round_even_near)
    apply simp
   apply simp
  apply simp
  done

lemma tied_vote_36 [binary64]:
  "mul64 (Fin (- 1)) (Fin (- 1)) = Fin 1"
  unfolding mul64_Fin
  apply (rule fl_pos [where e = "0" and m = "4503599627370496", THEN trans])
       apply simp
      apply simp
     apply simp
    apply (rule round_even_near)
    apply simp
   apply simp
  apply simp
  done

lemma tied_vote_37 [binary64]:
  "sub64 (Fin (6369051672525773 / 4503599627370496)) (Fin (6369051672525773 / 4503599627370496)) = Fin 0"
  by (simp add: sub64_Fin)

subsection \<open>The salary that overflows and the query (10, 0)\<close>

lemma unordered_1 [binary64]:
  "add64 (Fin 0) (Fin 0) = Fin 0"
  by (simp add: add64_Fin)

lemma unordered_2 [binary64]:
  "add64 (Fin 0) (Fin 10) = Fin 10"
  unfolding add64_Fin
  apply (rule fl_pos [where e = "3" and m = "5629499534213120", THEN trans])
       apply simp
      apply simp
     apply simp
    apply (rule round_even_near)
    apply simp
   apply simp
  apply simp
  done

lemma unordered_3 [binary64]:
  "div64 (Fin 10) (Fin 3) = Fin (7505999378950827 / 2251799813685248)"
  apply (subst div64_Fin)
   apply simp
  apply (rule fl_pos [where e = "1" and m = "7505999378950827", THEN trans])
       apply simp
      apply simp
     apply simp
    apply (rule round_even_near)
    apply simp
   apply simp
  apply simp
  done

lemma unordered_4 [binary64]:
  "sub64 (Fin 0) (Fin (7505999378950827 / 2251799813685248)) = Fin (- (7505999378950827 / 2251799813685248))"
  unfolding sub64_Fin
  apply (rule fl_neg [where e = "1" and m = "7505999378950827", THEN trans])
       apply simp
      apply simp
     apply simp
    apply (rule round_even_near)
    apply simp
   apply simp
  apply simp
  done

lemma unordered_5 [binary64]:
  "mul64 (Fin (- (7505999378950827 / 2251799813685248))) (Fin (- (7505999378950827 / 2251799813685248))) = Fin (6254999482459023 / 562949953421312)"
  unfolding mul64_Fin
  apply (rule fl_pos [where e = "3" and m = "6254999482459023", THEN trans])
       apply simp
      apply simp
     apply simp
    apply (rule round_even_near)
    apply simp
   apply simp
  apply simp
  done

lemma unordered_6 [binary64]:
  "add64 (Fin 0) (Fin (6254999482459023 / 562949953421312)) = Fin (6254999482459023 / 562949953421312)"
  unfolding add64_Fin
  apply (rule fl_pos [where e = "3" and m = "6254999482459023", THEN trans])
       apply simp
      apply simp
     apply simp
    apply (rule round_even_near)
    apply simp
   apply simp
  apply simp
  done

lemma unordered_7 [binary64]:
  "add64 (Fin (6254999482459023 / 562949953421312)) (Fin (6254999482459023 / 562949953421312)) = Fin (6254999482459023 / 281474976710656)"
  unfolding add64_Fin
  apply (rule fl_pos [where e = "4" and m = "6254999482459023", THEN trans])
       apply simp
      apply simp
     apply simp
    apply (rule round_even_near)
    apply simp
   apply simp
  apply simp
  done

lemma unordered_8 [binary64]:
  "sub64 (Fin 10) (Fin (7505999378950827 / 2251799813685248)) = Fin (3752999689475413 / 562949953421312)"
  unfolding sub64_Fin
  apply (rule fl_pos [where e = "2" and m = "7505999378950826", THEN trans])
       apply simp
      apply simp
     apply simp
    apply (rule round_even_tie [where f = "7505999378950826"])
     apply simp
    apply simp
   apply simp
  apply simp
  done

lemma unordered_9 [binary64]:
  "mul64 (Fin (3752999689475413 / 562949953421312)) (Fin (3752999689475413 / 562949953421312)) = Fin (6254999482459021 / 140737488355328)"
  unfolding mul64_Fin
  apply (rule fl_pos [where e = "5" and m = "6254999482459021", THEN trans])
       apply simp
      apply simp
     apply simp
    apply (rule round_even_near)
    apply simp
   apply simp
  apply simp
  done

lemma unordered_10 [binary64]:
  "add64 (Fin (6254999482459023 / 281474976710656)) (Fin (6254999482459021 / 140737488355328)) = Fin (2345624805922133 / 35184372088832)"
  unfolding add64_Fin
  apply (rule fl_pos [where e = "6" and m = "4691249611844266", THEN trans])
       apply simp
      apply simp
     apply simp
    apply (rule round_even_near)
    apply simp
   apply simp
  apply simp
  done

lemma unordered_11 [binary64]:
  "div64 (Fin (2345624805922133 / 35184372088832)) (Fin 3) = Fin (6254999482459021 / 281474976710656)"
  apply (subst div64_Fin)
   apply simp
  apply (rule fl_pos [where e = "4" and m = "6254999482459021", THEN trans])
       apply simp
      apply simp
     apply simp
    apply (rule round_even_near)
    apply simp
   apply simp
  apply simp
  done

lemma unordered_12 [binary64]:
  "Math_sqrt64 (Fin (6254999482459021 / 281474976710656)) = Fin (5307543060438143 / 1125899906842624)"
  apply (subst Math_sqrt64_Fin)
   apply simp
  apply (rule fl_sqrt [where e = "2" and m = "5307543060438143", THEN trans])
         apply (simp add: power2_eq_square)
         apply (simp add: power2_eq_square)
         apply (simp add: power2_eq_square)
         apply (simp add: power2_eq_square)
         apply (simp add: power2_eq_square)
         apply (simp add: power2_eq_square)
         apply (simp add: power2_eq_square)
         apply (simp add: power2_eq_square)
  done

lemma unordered_13 [binary64]:
  "add64 (Fin 0) (Fin (- 134826985114673693079697889309176855021348273420672992955072560868299506854125722349531357991805652015840085409903545018244092326610812466869635572979605593283325920068649113957226664700934570589589812214063754326628613011756847161105434832905620427872512883013439723679960434453859787228626517247218168102912)) = Fin (- 134826985114673693079697889309176855021348273420672992955072560868299506854125722349531357991805652015840085409903545018244092326610812466869635572979605593283325920068649113957226664700934570589589812214063754326628613011756847161105434832905620427872512883013439723679960434453859787228626517247218168102912)"
  unfolding add64_Fin
  apply (rule fl_neg [where e = "1023" and m = "6755399441055744", THEN trans])
       apply simp
      apply simp
     apply simp
    apply (rule round_even_near)
    apply simp
   apply simp
  apply simp
  done

lemma unordered_14 [binary64]:
  "add64 (Fin (- 134826985114673693079697889309176855021348273420672992955072560868299506854125722349531357991805652015840085409903545018244092326610812466869635572979605593283325920068649113957226664700934570589589812214063754326628613011756847161105434832905620427872512883013439723679960434453859787228626517247218168102912)) (Fin 179769313486231570814527423731704356798070567525844996598917476803157260780028538760589558632766878171540458953514382464234321326889464182768467546703537516986049910576551282076245490090389328944075868508455133942304583236903222948165808559332123348274797826204144723168738177180919299881250404026184124858368) = Fin 44942328371557877734829534422527501776722294105172003643844915934857753925902816411058200640961226155700373543610837445990229000278651715898831973723931923702723990507902168119018825389454758354486056294391379615675970225146375787060373726426502920402284943190704999488777742727059512652623886778965956755456"
  unfolding add64_Fin
  apply (rule fl_pos [where e = "1021" and m = "9007199254740988", THEN trans])
       apply simp
      apply simp
     apply simp
    apply (rule round_even_near)
    apply simp
   apply simp
  apply simp
  done

lemma unordered_15 [binary64]:
  "add64 (Fin 44942328371557877734829534422527501776722294105172003643844915934857753925902816411058200640961226155700373543610837445990229000278651715898831973723931923702723990507902168119018825389454758354486056294391379615675970225146375787060373726426502920402284943190704999488777742727059512652623886778965956755456) (Fin (- 134826985114673693079697889309176855021348273420672992955072560868299506854125722349531357991805652015840085409903545018244092326610812466869635572979605593283325920068649113957226664700934570589589812214063754326628613011756847161105434832905620427872512883013439723679960434453859787228626517247218168102912)) = Fin (- 89884656743115815344868354886649353244625979315500989311227644933441752928222905938473157350844425860139711866292707572253863326332160750970803599255673669580601929560746945838207839311479812235103755919672374710952642786610471374045061106479117507470227939822734724191182691726800274576002630468252211347456)"
  unfolding add64_Fin
  apply (rule fl_neg [where e = "1023" and m = "4503599627370497", THEN trans])
       apply simp
      apply simp
     apply simp
    apply (rule round_even_near)
    apply simp
   apply simp
  apply simp
  done

lemma unordered_16 [binary64]:
  "div64 (Fin (- 89884656743115815344868354886649353244625979315500989311227644933441752928222905938473157350844425860139711866292707572253863326332160750970803599255673669580601929560746945838207839311479812235103755919672374710952642786610471374045061106479117507470227939822734724191182691726800274576002630468252211347456)) (Fin 3) = Fin (- 29961552247705273444823042907816294128519253969199134826618598674028535561530337343834295674418196774178208532627320098536660145604466286967299523413219273809510475090941832212740673896398001176316019843526614222528678215990093785790695748093764493230788703647615039319661652972063459560632956181370745389056)"
  apply (subst div64_Fin)
   apply simp
  apply (rule fl_neg [where e = "1021" and m = "6004799503160663", THEN trans])
       apply simp
      apply simp
     apply simp
    apply (rule round_even_near)
    apply simp
   apply simp
  apply simp
  done

lemma unordered_17 [binary64]:
  "sub64 (Fin (- 134826985114673693079697889309176855021348273420672992955072560868299506854125722349531357991805652015840085409903545018244092326610812466869635572979605593283325920068649113957226664700934570589589812214063754326628613011756847161105434832905620427872512883013439723679960434453859787228626517247218168102912)) (Fin (- 29961552247705273444823042907816294128519253969199134826618598674028535561530337343834295674418196774178208532627320098536660145604466286967299523413219273809510475090941832212740673896398001176316019843526614222528678215990093785790695748093764493230788703647615039319661652972063459560632956181370745389056)) = Fin (- 104865432866968414645274072564561031751897236859377442959825811105627117536227278912667332644977290779266963145686972196351315070525108069971241078582402167625885949265628730944471808426822378119429488759629672147466542934406943391987712947009679962419586008245714290592496514292406223562097322989987397894144)"
  unfolding sub64_Fin
  apply (rule fl_neg [where e = "1023" and m = "5254199565265578", THEN trans])
       apply simp
      apply simp
     apply simp
    apply (rule round_even_near)
    apply simp
   apply simp
  apply simp
  done

lemma unordered_18 [binary64]:
  "mul64 (Fin (- 104865432866968414645274072564561031751897236859377442959825811105627117536227278912667332644977290779266963145686972196351315070525108069971241078582402167625885949265628730944471808426822378119429488759629672147466542934406943391987712947009679962419586008245714290592496514292406223562097322989987397894144)) (Fin (- 104865432866968414645274072564561031751897236859377442959825811105627117536227278912667332644977290779266963145686972196351315070525108069971241078582402167625885949265628730944471808426822378119429488759629672147466542934406943391987712947009679962419586008245714290592496514292406223562097322989987397894144)) = PosInf"
  unfolding mul64_Fin by (rule fl_overflow) simp

lemma unordered_19 [binary64]:
  "sub64 (Fin 179769313486231570814527423731704356798070567525844996598917476803157260780028538760589558632766878171540458953514382464234321326889464182768467546703537516986049910576551282076245490090389328944075868508455133942304583236903222948165808559332123348274797826204144723168738177180919299881250404026184124858368) (Fin (- 29961552247705273444823042907816294128519253969199134826618598674028535561530337343834295674418196774178208532627320098536660145604466286967299523413219273809510475090941832212740673896398001176316019843526614222528678215990093785790695748093764493230788703647615039319661652972063459560632956181370745389056)) = PosInf"
  unfolding sub64_Fin by (rule fl_overflow) simp

lemma unordered_20 [binary64]:
  "div64 (Fin (3752999689475413 / 562949953421312)) (Fin (5307543060438143 / 1125899906842624)) = Fin (6369051672525773 / 4503599627370496)"
  apply (subst div64_Fin)
   apply simp
  apply (rule fl_pos [where e = "0" and m = "6369051672525773", THEN trans])
       apply simp
      apply simp
     apply simp
    apply (rule round_even_near)
    apply simp
   apply simp
  apply simp
  done

lemma unordered_21 [binary64]:
  "sub64 (Fin 0) (Fin (- 29961552247705273444823042907816294128519253969199134826618598674028535561530337343834295674418196774178208532627320098536660145604466286967299523413219273809510475090941832212740673896398001176316019843526614222528678215990093785790695748093764493230788703647615039319661652972063459560632956181370745389056)) = Fin 29961552247705273444823042907816294128519253969199134826618598674028535561530337343834295674418196774178208532627320098536660145604466286967299523413219273809510475090941832212740673896398001176316019843526614222528678215990093785790695748093764493230788703647615039319661652972063459560632956181370745389056"
  unfolding sub64_Fin
  apply (rule fl_pos [where e = "1021" and m = "6004799503160663", THEN trans])
       apply simp
      apply simp
     apply simp
    apply (rule round_even_near)
    apply simp
   apply simp
  apply simp
  done

lemma unordered_22 [binary64]:
  "div64 (Fin (- (7505999378950827 / 2251799813685248))) (Fin (5307543060438143 / 1125899906842624)) = Fin (- (3184525836262887 / 4503599627370496))"
  apply (subst div64_Fin)
   apply simp
  apply (rule fl_neg [where e = "- 1" and m = "6369051672525774", THEN trans])
       apply simp
      apply simp
     apply simp
    apply (rule round_even_near)
    apply simp
   apply simp
  apply simp
  done

lemma unordered_23 [binary64]:
  "sub64 (Fin (6369051672525773 / 4503599627370496)) (Fin (- (3184525836262887 / 4503599627370496))) = Fin (2388394377197165 / 1125899906842624)"
  unfolding sub64_Fin
  apply (rule fl_pos [where e = "1" and m = "4776788754394330", THEN trans])
       apply simp
      apply simp
     apply simp
    apply (rule round_even_near)
    apply simp
   apply simp
  apply simp
  done

lemma unordered_24 [binary64]:
  "sub64 (Fin 0) (Fin 0) = Fin 0"
  by (simp add: sub64_Fin)

lemma unordered_25 [binary64]:
  "mul64 (Fin (2388394377197165 / 1125899906842624)) (Fin (2388394377197165 / 1125899906842624)) = Fin (5066549580791809 / 1125899906842624)"
  unfolding mul64_Fin
  apply (rule fl_pos [where e = "2" and m = "5066549580791809", THEN trans])
       apply simp
      apply simp
     apply simp
    apply (rule round_even_near)
    apply simp
   apply simp
  apply simp
  done

lemma unordered_26 [binary64]:
  "mul64 (Fin 0) (Fin 0) = Fin 0"
  by (simp add: mul64_Fin)

lemma unordered_27 [binary64]:
  "add64 (Fin (5066549580791809 / 1125899906842624)) (Fin 0) = Fin (5066549580791809 / 1125899906842624)"
  unfolding add64_Fin
  apply (rule fl_pos [where e = "2" and m = "5066549580791809", THEN trans])
       apply simp
      apply simp
     apply simp
    apply (rule round_even_near)
    apply simp
   apply simp
  apply simp
  done

lemma unordered_28 [binary64]:
  "Math_sqrt64 (Fin (5066549580791809 / 1125899906842624)) = Fin (2388394377197165 / 1125899906842624)"
  apply (subst Math_sqrt64_Fin)
   apply simp
  apply (rule fl_sqrt [where e = "1" and m = "4776788754394330", THEN trans])
         apply (simp add: power2_eq_square)
         apply (simp add: power2_eq_square)
         apply (simp add: power2_eq_square)
         apply (simp add: power2_eq_square)
         apply (simp add: power2_eq_square)
         apply (simp add: power2_eq_square)
         apply (simp add: power2_eq_square)
         apply (simp add: power2_eq_square)
  done

lemma unordered_29 [binary64]:
  "sub64 (Fin (6369051672525773 / 4503599627370496)) (Fin (6369051672525773 / 4503599627370496)) = Fin 0"
  by (simp add: sub64_Fin)

lemma unordered_30 [binary64]:
  "Math_sqrt64 (Fin 0) = Fin 0"
  by (simp add: Math_sqrt64_Fin)

lemma unordered_31 [binary64]:
  "sub64 (Fin (2388394377197165 / 1125899906842624)) (Fin 0) = Fin (2388394377197165 / 1125899906842624)"
  unfolding sub64_Fin
  apply (rule fl_pos [where e = "1" and m = "4776788754394330", THEN trans])
       apply simp
      apply simp
     apply simp
    apply (rule round_even_near)
    apply simp
   apply simp
  apply simp
  done

lemma unordered_32 [binary64]:
  "sub64 (Fin 0) (Fin (2388394377197165 / 1125899906842624)) = Fin (- (2388394377197165 / 1125899906842624))"
  unfolding sub64_Fin
  apply (rule fl_neg [where e = "1" and m = "4776788754394330", THEN trans])
       apply simp
      apply simp
     apply simp
    apply (rule round_even_near)
    apply simp
   apply simp
  apply simp
  done

subsection \<open>The near tie, its ages multiplied by 3, and the queries (28, 95000) and (35, 100000)\<close>

lemma near_tie_1 [binary64]:
  "add64 (Fin 0) (Fin 33) = Fin 33"
  unfolding add64_Fin
  apply (rule fl_pos [where e = "5" and m = "4644337115725824", THEN trans])
       apply simp
      apply simp
     apply simp
    apply (rule round_even_near)
    apply simp
   apply simp
  apply simp
  done

lemma near_tie_2 [binary64]:
  "add64 (Fin 33) (Fin 23) = Fin 56"
  unfolding add64_Fin
  apply (rule fl_pos [where e = "5" and m = "7881299347898368", THEN trans])
       apply simp
      apply simp
     apply simp
    apply (rule round_even_near)
    apply simp
   apply simp
  apply simp
  done

lemma near_tie_3 [binary64]:
  "add64 (Fin 56) (Fin 36) = Fin 92"
  unfolding add64_Fin
  apply (rule fl_pos [where e = "6" and m = "6473924464345088", THEN trans])
       apply simp
      apply simp
     apply simp
    apply (rule round_even_near)
    apply simp
   apply simp
  apply simp
  done

lemma near_tie_4 [binary64]:
  "div64 (Fin 92) (Fin 3) = Fin (8631899285793451 / 281474976710656)"
  apply (subst div64_Fin)
   apply simp
  apply (rule fl_pos [where e = "4" and m = "8631899285793451", THEN trans])
       apply simp
      apply simp
     apply simp
    apply (rule round_even_near)
    apply simp
   apply simp
  apply simp
  done

lemma near_tie_5 [binary64]:
  "sub64 (Fin 33) (Fin (8631899285793451 / 281474976710656)) = Fin (656774945658197 / 281474976710656)"
  unfolding sub64_Fin
  apply (rule fl_pos [where e = "1" and m = "5254199565265576", THEN trans])
       apply simp
      apply simp
     apply simp
    apply (rule round_even_near)
    apply simp
   apply simp
  apply simp
  done

lemma near_tie_6 [binary64]:
  "mul64 (Fin (656774945658197 / 281474976710656)) (Fin (656774945658197 / 281474976710656)) = Fin (1532474873202459 / 281474976710656)"
  unfolding mul64_Fin
  apply (rule fl_pos [where e = "2" and m = "6129899492809836", THEN trans])
       apply simp
      apply simp
     apply simp
    apply (rule round_even_near)
    apply simp
   apply simp
  apply simp
  done

lemma near_tie_7 [binary64]:
  "add64 (Fin 0) (Fin (1532474873202459 / 281474976710656)) = Fin (1532474873202459 / 281474976710656)"
  unfolding add64_Fin
  apply (rule fl_pos [where e = "2" and m = "6129899492809836", THEN trans])
       apply simp
      apply simp
     apply simp
    apply (rule round_even_near)
    apply simp
   apply simp
  apply simp
  done

lemma near_tie_8 [binary64]:
  "sub64 (Fin 23) (Fin (8631899285793451 / 281474976710656)) = Fin (- (2157974821448363 / 281474976710656))"
  unfolding sub64_Fin
  apply (rule fl_neg [where e = "2" and m = "8631899285793452", THEN trans])
       apply simp
      apply simp
     apply simp
    apply (rule round_even_near)
    apply simp
   apply simp
  apply simp
  done

lemma near_tie_9 [binary64]:
  "mul64 (Fin (- (2157974821448363 / 281474976710656))) (Fin (- (2157974821448363 / 281474976710656))) = Fin (8272236815552059 / 140737488355328)"
  unfolding mul64_Fin
  apply (rule fl_pos [where e = "5" and m = "8272236815552059", THEN trans])
       apply simp
      apply simp
     apply simp
    apply (rule round_even_near)
    apply simp
   apply simp
  apply simp
  done

lemma near_tie_10 [binary64]:
  "add64 (Fin (1532474873202459 / 281474976710656)) (Fin (8272236815552059 / 140737488355328)) = Fin (1129809281519161 / 17592186044416)"
  unfolding add64_Fin
  apply (rule fl_pos [where e = "6" and m = "4519237126076644", THEN trans])
       apply simp
      apply simp
     apply simp
    apply (rule round_even_near)
    apply simp
   apply simp
  apply simp
  done

lemma near_tie_11 [binary64]:
  "sub64 (Fin 36) (Fin (8631899285793451 / 281474976710656)) = Fin (1501199875790165 / 281474976710656)"
  unfolding sub64_Fin
  apply (rule fl_pos [where e = "2" and m = "6004799503160660", THEN trans])
       apply simp
      apply simp
     apply simp
    apply (rule round_even_near)
    apply simp
   apply simp
  apply simp
  done

lemma near_tie_12 [binary64]:
  "mul64 (Fin (1501199875790165 / 281474976710656)) (Fin (1501199875790165 / 281474976710656)) = Fin (8006399337547545 / 281474976710656)"
  unfolding mul64_Fin
  apply (rule fl_pos [where e = "4" and m = "8006399337547545", THEN trans])
       apply simp
      apply simp
     apply simp
    apply (rule round_even_near)
    apply simp
   apply simp
  apply simp
  done

lemma near_tie_13 [binary64]:
  "add64 (Fin (1129809281519161 / 17592186044416)) (Fin (8006399337547545 / 281474976710656)) = Fin (3260418480231765 / 35184372088832)"
  unfolding add64_Fin
  apply (rule fl_pos [where e = "6" and m = "6520836960463530", THEN trans])
       apply simp
      apply simp
     apply simp
    apply (rule round_even_near)
    apply simp
   apply simp
  apply simp
  done

lemma near_tie_14 [binary64]:
  "div64 (Fin (3260418480231765 / 35184372088832)) (Fin 3) = Fin (1086806160077255 / 35184372088832)"
  apply (subst div64_Fin)
   apply simp
  apply (rule fl_pos [where e = "4" and m = "8694449280618040", THEN trans])
       apply simp
      apply simp
     apply simp
    apply (rule round_even_near)
    apply simp
   apply simp
  apply simp
  done

lemma near_tie_15 [binary64]:
  "Math_sqrt64 (Fin (1086806160077255 / 35184372088832)) = Fin (6257500982052107 / 1125899906842624)"
  apply (subst Math_sqrt64_Fin)
   apply simp
  apply (rule fl_sqrt [where e = "2" and m = "6257500982052107", THEN trans])
         apply (simp add: power2_eq_square)
         apply (simp add: power2_eq_square)
         apply (simp add: power2_eq_square)
         apply (simp add: power2_eq_square)
         apply (simp add: power2_eq_square)
         apply (simp add: power2_eq_square)
         apply (simp add: power2_eq_square)
         apply (simp add: power2_eq_square)
  done

lemma near_tie_16 [binary64]:
  "add64 (Fin 0) (Fin 95000) = Fin 95000"
  unfolding add64_Fin
  apply (rule fl_pos [where e = "16" and m = "6528350289920000", THEN trans])
       apply simp
      apply simp
     apply simp
    apply (rule round_even_near)
    apply simp
   apply simp
  apply simp
  done

lemma near_tie_17 [binary64]:
  "add64 (Fin 95000) (Fin 95000) = Fin 190000"
  unfolding add64_Fin
  apply (rule fl_pos [where e = "17" and m = "6528350289920000", THEN trans])
       apply simp
      apply simp
     apply simp
    apply (rule round_even_near)
    apply simp
   apply simp
  apply simp
  done

lemma near_tie_18 [binary64]:
  "add64 (Fin 190000) (Fin 111000) = Fin 301000"
  unfolding add64_Fin
  apply (rule fl_pos [where e = "18" and m = "5171140624384000", THEN trans])
       apply simp
      apply simp
     apply simp
    apply (rule round_even_near)
    apply simp
   apply simp
  apply simp
  done

lemma near_tie_19 [binary64]:
  "div64 (Fin 301000) (Fin 3) = Fin (6894854165845333 / 68719476736)"
  apply (subst div64_Fin)
   apply simp
  apply (rule fl_pos [where e = "16" and m = "6894854165845333", THEN trans])
       apply simp
      apply simp
     apply simp
    apply (rule round_even_near)
    apply simp
   apply simp
  apply simp
  done

lemma near_tie_20 [binary64]:
  "sub64 (Fin 95000) (Fin (6894854165845333 / 68719476736)) = Fin (- (366503875925333 / 68719476736))"
  unfolding sub64_Fin
  apply (rule fl_neg [where e = "12" and m = "5864062014805328", THEN trans])
       apply simp
      apply simp
     apply simp
    apply (rule round_even_near)
    apply simp
   apply simp
  apply simp
  done

lemma near_tie_21 [binary64]:
  "mul64 (Fin (- (366503875925333 / 68719476736))) (Fin (- (366503875925333 / 68719476736))) = Fin (7635497415111097 / 268435456)"
  unfolding mul64_Fin
  apply (rule fl_pos [where e = "24" and m = "7635497415111097", THEN trans])
       apply simp
      apply simp
     apply simp
    apply (rule round_even_near)
    apply simp
   apply simp
  apply simp
  done

lemma near_tie_22 [binary64]:
  "add64 (Fin 0) (Fin (7635497415111097 / 268435456)) = Fin (7635497415111097 / 268435456)"
  unfolding add64_Fin
  apply (rule fl_pos [where e = "24" and m = "7635497415111097", THEN trans])
       apply simp
      apply simp
     apply simp
    apply (rule round_even_near)
    apply simp
   apply simp
  apply simp
  done

lemma near_tie_23 [binary64]:
  "add64 (Fin (7635497415111097 / 268435456)) (Fin (7635497415111097 / 268435456)) = Fin (7635497415111097 / 134217728)"
  unfolding add64_Fin
  apply (rule fl_pos [where e = "25" and m = "7635497415111097", THEN trans])
       apply simp
      apply simp
     apply simp
    apply (rule round_even_near)
    apply simp
   apply simp
  apply simp
  done

lemma near_tie_24 [binary64]:
  "sub64 (Fin 111000) (Fin (6894854165845333 / 68719476736)) = Fin (733007751850667 / 68719476736)"
  unfolding sub64_Fin
  apply (rule fl_pos [where e = "13" and m = "5864062014805336", THEN trans])
       apply simp
      apply simp
     apply simp
    apply (rule round_even_near)
    apply simp
   apply simp
  apply simp
  done

lemma near_tie_25 [binary64]:
  "mul64 (Fin (733007751850667 / 68719476736)) (Fin (733007751850667 / 68719476736)) = Fin (3817748707555559 / 33554432)"
  unfolding mul64_Fin
  apply (rule fl_pos [where e = "26" and m = "7635497415111118", THEN trans])
       apply simp
      apply simp
     apply simp
    apply (rule round_even_near)
    apply simp
   apply simp
  apply simp
  done

lemma near_tie_26 [binary64]:
  "add64 (Fin (7635497415111097 / 134217728)) (Fin (3817748707555559 / 33554432)) = Fin (5726623061333333 / 33554432)"
  unfolding add64_Fin
  apply (rule fl_pos [where e = "27" and m = "5726623061333333", THEN trans])
       apply simp
      apply simp
     apply simp
    apply (rule round_even_near)
    apply simp
   apply simp
  apply simp
  done

lemma near_tie_27 [binary64]:
  "div64 (Fin (5726623061333333 / 33554432)) (Fin 3) = Fin (7635497415111111 / 134217728)"
  apply (subst div64_Fin)
   apply simp
  apply (rule fl_pos [where e = "25" and m = "7635497415111111", THEN trans])
       apply simp
      apply simp
     apply simp
    apply (rule round_even_near)
    apply simp
   apply simp
  apply simp
  done

lemma near_tie_28 [binary64]:
  "Math_sqrt64 (Fin (7635497415111111 / 134217728)) = Fin (1036629503991825 / 137438953472)"
  apply (subst Math_sqrt64_Fin)
   apply simp
  apply (rule fl_sqrt [where e = "12" and m = "8293036031934600", THEN trans])
         apply (simp add: power2_eq_square)
         apply (simp add: power2_eq_square)
         apply (simp add: power2_eq_square)
         apply (simp add: power2_eq_square)
         apply (simp add: power2_eq_square)
         apply (simp add: power2_eq_square)
         apply (simp add: power2_eq_square)
         apply (simp add: power2_eq_square)
  done

lemma near_tie_29 [binary64]:
  "sub64 (Fin 28) (Fin (8631899285793451 / 281474976710656)) = Fin (- (750599937895083 / 281474976710656))"
  unfolding sub64_Fin
  apply (rule fl_neg [where e = "1" and m = "6004799503160664", THEN trans])
       apply simp
      apply simp
     apply simp
    apply (rule round_even_near)
    apply simp
   apply simp
  apply simp
  done

lemma near_tie_30 [binary64]:
  "div64 (Fin (- (750599937895083 / 281474976710656))) (Fin (6257500982052107 / 1125899906842624)) = Fin (- (4321727296956853 / 9007199254740992))"
  apply (subst div64_Fin)
   apply simp
  apply (rule fl_neg [where e = "- 2" and m = "8643454593913706", THEN trans])
       apply simp
      apply simp
     apply simp
    apply (rule round_even_near)
    apply simp
   apply simp
  apply simp
  done

lemma near_tie_31 [binary64]:
  "div64 (Fin (- (366503875925333 / 68719476736))) (Fin (1036629503991825 / 137438953472)) = Fin (- (6369051672525767 / 9007199254740992))"
  apply (subst div64_Fin)
   apply simp
  apply (rule fl_neg [where e = "- 1" and m = "6369051672525767", THEN trans])
       apply simp
      apply simp
     apply simp
    apply (rule round_even_near)
    apply simp
   apply simp
  apply simp
  done

lemma near_tie_32 [binary64]:
  "div64 (Fin (656774945658197 / 281474976710656)) (Fin (6257500982052107 / 1125899906842624)) = Fin (3781511384837243 / 9007199254740992)"
  apply (subst div64_Fin)
   apply simp
  apply (rule fl_pos [where e = "- 2" and m = "7563022769674486", THEN trans])
       apply simp
      apply simp
     apply simp
    apply (rule round_even_near)
    apply simp
   apply simp
  apply simp
  done

lemma near_tie_33 [binary64]:
  "sub64 (Fin (- (4321727296956853 / 9007199254740992))) (Fin (3781511384837243 / 9007199254740992)) = Fin (- (506452417612131 / 562949953421312))"
  unfolding sub64_Fin
  apply (rule fl_neg [where e = "- 1" and m = "8103238681794096", THEN trans])
       apply simp
      apply simp
     apply simp
    apply (rule round_even_near)
    apply simp
   apply simp
  apply simp
  done

lemma near_tie_34 [binary64]:
  "sub64 (Fin (- (6369051672525767 / 9007199254740992))) (Fin (- (6369051672525767 / 9007199254740992))) = Fin 0"
  by (simp add: sub64_Fin)

lemma near_tie_35 [binary64]:
  "mul64 (Fin (- (506452417612131 / 562949953421312))) (Fin (- (506452417612131 / 562949953421312))) = Fin (3644999698411373 / 4503599627370496)"
  unfolding mul64_Fin
  apply (rule fl_pos [where e = "- 1" and m = "7289999396822746", THEN trans])
       apply simp
      apply simp
     apply simp
    apply (rule round_even_near)
    apply simp
   apply simp
  apply simp
  done

lemma near_tie_36 [binary64]:
  "mul64 (Fin 0) (Fin 0) = Fin 0"
  by (simp add: mul64_Fin)

lemma near_tie_37 [binary64]:
  "add64 (Fin (3644999698411373 / 4503599627370496)) (Fin 0) = Fin (3644999698411373 / 4503599627370496)"
  unfolding add64_Fin
  apply (rule fl_pos [where e = "- 1" and m = "7289999396822746", THEN trans])
       apply simp
      apply simp
     apply simp
    apply (rule round_even_near)
    apply simp
   apply simp
  apply simp
  done

lemma near_tie_38 [binary64]:
  "Math_sqrt64 (Fin (3644999698411373 / 4503599627370496)) = Fin (506452417612131 / 562949953421312)"
  apply (subst Math_sqrt64_Fin)
   apply simp
  apply (rule fl_sqrt [where e = "- 1" and m = "8103238681794096", THEN trans])
         apply (simp add: power2_eq_square)
         apply (simp add: power2_eq_square)
         apply (simp add: power2_eq_square)
         apply (simp add: power2_eq_square)
         apply (simp add: power2_eq_square)
         apply (simp add: power2_eq_square)
         apply (simp add: power2_eq_square)
         apply (simp add: power2_eq_square)
  done

lemma near_tie_39 [binary64]:
  "div64 (Fin (- (2157974821448363 / 281474976710656))) (Fin (6257500982052107 / 1125899906842624)) = Fin (- (3106241494687737 / 2251799813685248))"
  apply (subst div64_Fin)
   apply simp
  apply (rule fl_neg [where e = "0" and m = "6212482989375474", THEN trans])
       apply simp
      apply simp
     apply simp
    apply (rule round_even_near)
    apply simp
   apply simp
  apply simp
  done

lemma near_tie_40 [binary64]:
  "sub64 (Fin (- (4321727296956853 / 9007199254740992))) (Fin (- (3106241494687737 / 2251799813685248))) = Fin (8103238681794095 / 9007199254740992)"
  unfolding sub64_Fin
  apply (rule fl_pos [where e = "- 1" and m = "8103238681794095", THEN trans])
       apply simp
      apply simp
     apply simp
    apply (rule round_even_near)
    apply simp
   apply simp
  apply simp
  done

lemma near_tie_41 [binary64]:
  "mul64 (Fin (8103238681794095 / 9007199254740992)) (Fin (8103238681794095 / 9007199254740992)) = Fin (911249924602843 / 1125899906842624)"
  unfolding mul64_Fin
  apply (rule fl_pos [where e = "- 1" and m = "7289999396822744", THEN trans])
       apply simp
      apply simp
     apply simp
    apply (rule round_even_near)
    apply simp
   apply simp
  apply simp
  done

lemma near_tie_42 [binary64]:
  "add64 (Fin (911249924602843 / 1125899906842624)) (Fin 0) = Fin (911249924602843 / 1125899906842624)"
  unfolding add64_Fin
  apply (rule fl_pos [where e = "- 1" and m = "7289999396822744", THEN trans])
       apply simp
      apply simp
     apply simp
    apply (rule round_even_near)
    apply simp
   apply simp
  apply simp
  done

lemma near_tie_43 [binary64]:
  "Math_sqrt64 (Fin (911249924602843 / 1125899906842624)) = Fin (8103238681794095 / 9007199254740992)"
  apply (subst Math_sqrt64_Fin)
   apply simp
  apply (rule fl_sqrt [where e = "- 1" and m = "8103238681794095", THEN trans])
         apply (simp add: power2_eq_square)
         apply (simp add: power2_eq_square)
         apply (simp add: power2_eq_square)
         apply (simp add: power2_eq_square)
         apply (simp add: power2_eq_square)
         apply (simp add: power2_eq_square)
         apply (simp add: power2_eq_square)
         apply (simp add: power2_eq_square)
  done

lemma near_tie_44 [binary64]:
  "div64 (Fin (1501199875790165 / 281474976710656)) (Fin (6257500982052107 / 1125899906842624)) = Fin (2160863648478425 / 2251799813685248)"
  apply (subst div64_Fin)
   apply simp
  apply (rule fl_pos [where e = "- 1" and m = "8643454593913700", THEN trans])
       apply simp
      apply simp
     apply simp
    apply (rule round_even_near)
    apply simp
   apply simp
  apply simp
  done

lemma near_tie_45 [binary64]:
  "div64 (Fin (733007751850667 / 68719476736)) (Fin (1036629503991825 / 137438953472)) = Fin (6369051672525775 / 4503599627370496)"
  apply (subst div64_Fin)
   apply simp
  apply (rule fl_pos [where e = "0" and m = "6369051672525775", THEN trans])
       apply simp
      apply simp
     apply simp
    apply (rule round_even_near)
    apply simp
   apply simp
  apply simp
  done

lemma near_tie_46 [binary64]:
  "sub64 (Fin (- (4321727296956853 / 9007199254740992))) (Fin (2160863648478425 / 2251799813685248)) = Fin (- (1620647736358819 / 1125899906842624))"
  unfolding sub64_Fin
  apply (rule fl_neg [where e = "0" and m = "6482590945435276", THEN trans])
       apply simp
      apply simp
     apply simp
    apply (rule round_even_tie [where f = "6482590945435276"])
     apply simp
    apply simp
   apply simp
  apply simp
  done

lemma near_tie_47 [binary64]:
  "sub64 (Fin (- (6369051672525767 / 9007199254740992))) (Fin (6369051672525775 / 4503599627370496)) = Fin (- (4776788754394329 / 2251799813685248))"
  unfolding sub64_Fin
  apply (rule fl_neg [where e = "1" and m = "4776788754394329", THEN trans])
       apply simp
      apply simp
     apply simp
    apply (rule round_even_near)
    apply simp
   apply simp
  apply simp
  done

lemma near_tie_48 [binary64]:
  "mul64 (Fin (- (1620647736358819 / 1125899906842624))) (Fin (- (1620647736358819 / 1125899906842624))) = Fin (1166399903491639 / 562949953421312)"
  unfolding mul64_Fin
  apply (rule fl_pos [where e = "1" and m = "4665599613966556", THEN trans])
       apply simp
      apply simp
     apply simp
    apply (rule round_even_near)
    apply simp
   apply simp
  apply simp
  done

lemma near_tie_49 [binary64]:
  "mul64 (Fin (- (4776788754394329 / 2251799813685248))) (Fin (- (4776788754394329 / 2251799813685248))) = Fin (5066549580791807 / 1125899906842624)"
  unfolding mul64_Fin
  apply (rule fl_pos [where e = "2" and m = "5066549580791807", THEN trans])
       apply simp
      apply simp
     apply simp
    apply (rule round_even_near)
    apply simp
   apply simp
  apply simp
  done

lemma near_tie_50 [binary64]:
  "add64 (Fin (1166399903491639 / 562949953421312)) (Fin (5066549580791807 / 1125899906842624)) = Fin (7399349387775085 / 1125899906842624)"
  unfolding add64_Fin
  apply (rule fl_pos [where e = "2" and m = "7399349387775085", THEN trans])
       apply simp
      apply simp
     apply simp
    apply (rule round_even_near)
    apply simp
   apply simp
  apply simp
  done

lemma near_tie_51 [binary64]:
  "Math_sqrt64 (Fin (7399349387775085 / 1125899906842624)) = Fin (5772668979386223 / 2251799813685248)"
  apply (subst Math_sqrt64_Fin)
   apply simp
  apply (rule fl_sqrt [where e = "1" and m = "5772668979386223", THEN trans])
         apply (simp add: power2_eq_square)
         apply (simp add: power2_eq_square)
         apply (simp add: power2_eq_square)
         apply (simp add: power2_eq_square)
         apply (simp add: power2_eq_square)
         apply (simp add: power2_eq_square)
         apply (simp add: power2_eq_square)
         apply (simp add: power2_eq_square)
  done

lemma near_tie_52 [binary64]:
  "sub64 (Fin (506452417612131 / 562949953421312)) (Fin (8103238681794095 / 9007199254740992)) = Fin (1 / 9007199254740992)"
  unfolding sub64_Fin
  apply (rule fl_pos [where e = "- 53" and m = "4503599627370496", THEN trans])
       apply simp
      apply simp
     apply simp
    apply (rule round_even_near)
    apply simp
   apply simp
  apply simp
  done

lemma near_tie_53 [binary64]:
  "sub64 (Fin (506452417612131 / 562949953421312)) (Fin (5772668979386223 / 2251799813685248)) = Fin (- (3746859308937699 / 2251799813685248))"
  unfolding sub64_Fin
  apply (rule fl_neg [where e = "0" and m = "7493718617875398", THEN trans])
       apply simp
      apply simp
     apply simp
    apply (rule round_even_near)
    apply simp
   apply simp
  apply simp
  done

lemma near_tie_54 [binary64]:
  "sub64 (Fin (8103238681794095 / 9007199254740992)) (Fin (506452417612131 / 562949953421312)) = Fin (- (1 / 9007199254740992))"
  unfolding sub64_Fin
  apply (rule fl_neg [where e = "- 53" and m = "4503599627370496", THEN trans])
       apply simp
      apply simp
     apply simp
    apply (rule round_even_near)
    apply simp
   apply simp
  apply simp
  done

lemma near_tie_55 [binary64]:
  "sub64 (Fin (8103238681794095 / 9007199254740992)) (Fin (5772668979386223 / 2251799813685248)) = Fin (- (3746859308937699 / 2251799813685248))"
  unfolding sub64_Fin
  apply (rule fl_neg [where e = "0" and m = "7493718617875398", THEN trans])
       apply simp
      apply simp
     apply simp
    apply (rule round_even_tie [where f = "7493718617875398"])
     apply simp
    apply simp
   apply simp
  apply simp
  done

lemma near_tie_56 [binary64]:
  "sub64 (Fin (5772668979386223 / 2251799813685248)) (Fin (506452417612131 / 562949953421312)) = Fin (3746859308937699 / 2251799813685248)"
  unfolding sub64_Fin
  apply (rule fl_pos [where e = "0" and m = "7493718617875398", THEN trans])
       apply simp
      apply simp
     apply simp
    apply (rule round_even_near)
    apply simp
   apply simp
  apply simp
  done

lemma near_tie_57 [binary64]:
  "sub64 (Fin (5772668979386223 / 2251799813685248)) (Fin (8103238681794095 / 9007199254740992)) = Fin (3746859308937699 / 2251799813685248)"
  unfolding sub64_Fin
  apply (rule fl_pos [where e = "0" and m = "7493718617875398", THEN trans])
       apply simp
      apply simp
     apply simp
    apply (rule round_even_tie [where f = "7493718617875398"])
     apply simp
    apply simp
   apply simp
  apply simp
  done

lemma near_tie_58 [binary64]:
  "mul64 (Fin 3) (Fin 33) = Fin 99"
  unfolding mul64_Fin
  apply (rule fl_pos [where e = "6" and m = "6966505673588736", THEN trans])
       apply simp
      apply simp
     apply simp
    apply (rule round_even_near)
    apply simp
   apply simp
  apply simp
  done

lemma near_tie_59 [binary64]:
  "mul64 (Fin 3) (Fin 23) = Fin 69"
  unfolding mul64_Fin
  apply (rule fl_pos [where e = "6" and m = "4855443348258816", THEN trans])
       apply simp
      apply simp
     apply simp
    apply (rule round_even_near)
    apply simp
   apply simp
  apply simp
  done

lemma near_tie_60 [binary64]:
  "mul64 (Fin 3) (Fin 36) = Fin 108"
  unfolding mul64_Fin
  apply (rule fl_pos [where e = "6" and m = "7599824371187712", THEN trans])
       apply simp
      apply simp
     apply simp
    apply (rule round_even_near)
    apply simp
   apply simp
  apply simp
  done

lemma near_tie_61 [binary64]:
  "mul64 (Fin 3) (Fin 28) = Fin 84"
  unfolding mul64_Fin
  apply (rule fl_pos [where e = "6" and m = "5910974510923776", THEN trans])
       apply simp
      apply simp
     apply simp
    apply (rule round_even_near)
    apply simp
   apply simp
  apply simp
  done

lemma near_tie_62 [binary64]:
  "add64 (Fin 0) (Fin 99) = Fin 99"
  unfolding add64_Fin
  apply (rule fl_pos [where e = "6" and m = "6966505673588736", THEN trans])
       apply simp
      apply simp
     apply simp
    apply (rule round_even_near)
    apply simp
   apply simp
  apply simp
  done

lemma near_tie_63 [binary64]:
  "add64 (Fin 99) (Fin 69) = Fin 168"
  unfolding add64_Fin
  apply (rule fl_pos [where e = "7" and m = "5910974510923776", THEN trans])
       apply simp
      apply simp
     apply simp
    apply (rule round_even_near)
    apply simp
   apply simp
  apply simp
  done

lemma near_tie_64 [binary64]:
  "add64 (Fin 168) (Fin 108) = Fin 276"
  unfolding add64_Fin
  apply (rule fl_pos [where e = "8" and m = "4855443348258816", THEN trans])
       apply simp
      apply simp
     apply simp
    apply (rule round_even_near)
    apply simp
   apply simp
  apply simp
  done

lemma near_tie_65 [binary64]:
  "div64 (Fin 276) (Fin 3) = Fin 92"
  apply (subst div64_Fin)
   apply simp
  apply (rule fl_pos [where e = "6" and m = "6473924464345088", THEN trans])
       apply simp
      apply simp
     apply simp
    apply (rule round_even_near)
    apply simp
   apply simp
  apply simp
  done

lemma near_tie_66 [binary64]:
  "sub64 (Fin 99) (Fin 92) = Fin 7"
  unfolding sub64_Fin
  apply (rule fl_pos [where e = "2" and m = "7881299347898368", THEN trans])
       apply simp
      apply simp
     apply simp
    apply (rule round_even_near)
    apply simp
   apply simp
  apply simp
  done

lemma near_tie_67 [binary64]:
  "mul64 (Fin 7) (Fin 7) = Fin 49"
  unfolding mul64_Fin
  apply (rule fl_pos [where e = "5" and m = "6896136929411072", THEN trans])
       apply simp
      apply simp
     apply simp
    apply (rule round_even_near)
    apply simp
   apply simp
  apply simp
  done

lemma near_tie_68 [binary64]:
  "add64 (Fin 0) (Fin 49) = Fin 49"
  unfolding add64_Fin
  apply (rule fl_pos [where e = "5" and m = "6896136929411072", THEN trans])
       apply simp
      apply simp
     apply simp
    apply (rule round_even_near)
    apply simp
   apply simp
  apply simp
  done

lemma near_tie_69 [binary64]:
  "sub64 (Fin 69) (Fin 92) = Fin (- 23)"
  unfolding sub64_Fin
  apply (rule fl_neg [where e = "4" and m = "6473924464345088", THEN trans])
       apply simp
      apply simp
     apply simp
    apply (rule round_even_near)
    apply simp
   apply simp
  apply simp
  done

lemma near_tie_70 [binary64]:
  "mul64 (Fin (- 23)) (Fin (- 23)) = Fin 529"
  unfolding mul64_Fin
  apply (rule fl_pos [where e = "9" and m = "4653133208748032", THEN trans])
       apply simp
      apply simp
     apply simp
    apply (rule round_even_near)
    apply simp
   apply simp
  apply simp
  done

lemma near_tie_71 [binary64]:
  "add64 (Fin 49) (Fin 529) = Fin 578"
  unfolding add64_Fin
  apply (rule fl_pos [where e = "9" and m = "5084141766836224", THEN trans])
       apply simp
      apply simp
     apply simp
    apply (rule round_even_near)
    apply simp
   apply simp
  apply simp
  done

lemma near_tie_72 [binary64]:
  "sub64 (Fin 108) (Fin 92) = Fin 16"
  unfolding sub64_Fin
  apply (rule fl_pos [where e = "4" and m = "4503599627370496", THEN trans])
       apply simp
      apply simp
     apply simp
    apply (rule round_even_near)
    apply simp
   apply simp
  apply simp
  done

lemma near_tie_73 [binary64]:
  "mul64 (Fin 16) (Fin 16) = Fin 256"
  unfolding mul64_Fin
  apply (rule fl_pos [where e = "8" and m = "4503599627370496", THEN trans])
       apply simp
      apply simp
     apply simp
    apply (rule round_even_near)
    apply simp
   apply simp
  apply simp
  done

lemma near_tie_74 [binary64]:
  "add64 (Fin 578) (Fin 256) = Fin 834"
  unfolding add64_Fin
  apply (rule fl_pos [where e = "9" and m = "7335941580521472", THEN trans])
       apply simp
      apply simp
     apply simp
    apply (rule round_even_near)
    apply simp
   apply simp
  apply simp
  done

lemma near_tie_75 [binary64]:
  "div64 (Fin 834) (Fin 3) = Fin 278"
  apply (subst div64_Fin)
   apply simp
  apply (rule fl_pos [where e = "8" and m = "4890627720347648", THEN trans])
       apply simp
      apply simp
     apply simp
    apply (rule round_even_near)
    apply simp
   apply simp
  apply simp
  done

lemma near_tie_76 [binary64]:
  "Math_sqrt64 (Fin 278) = Fin (586640717067385 / 35184372088832)"
  apply (subst Math_sqrt64_Fin)
   apply simp
  apply (rule fl_sqrt [where e = "4" and m = "4693125736539080", THEN trans])
         apply (simp add: power2_eq_square)
         apply (simp add: power2_eq_square)
         apply (simp add: power2_eq_square)
         apply (simp add: power2_eq_square)
         apply (simp add: power2_eq_square)
         apply (simp add: power2_eq_square)
         apply (simp add: power2_eq_square)
         apply (simp add: power2_eq_square)
  done

lemma near_tie_77 [binary64]:
  "sub64 (Fin 84) (Fin 92) = Fin (- 8)"
  unfolding sub64_Fin
  apply (rule fl_neg [where e = "3" and m = "4503599627370496", THEN trans])
       apply simp
      apply simp
     apply simp
    apply (rule round_even_near)
    apply simp
   apply simp
  apply simp
  done

lemma near_tie_78 [binary64]:
  "div64 (Fin (- 8)) (Fin (586640717067385 / 35184372088832)) = Fin (- (8643454593913703 / 18014398509481984))"
  apply (subst div64_Fin)
   apply simp
  apply (rule fl_neg [where e = "- 2" and m = "8643454593913703", THEN trans])
       apply simp
      apply simp
     apply simp
    apply (rule round_even_near)
    apply simp
   apply simp
  apply simp
  done

lemma near_tie_79 [binary64]:
  "div64 (Fin 7) (Fin (586640717067385 / 35184372088832)) = Fin (3781511384837245 / 9007199254740992)"
  apply (subst div64_Fin)
   apply simp
  apply (rule fl_pos [where e = "- 2" and m = "7563022769674490", THEN trans])
       apply simp
      apply simp
     apply simp
    apply (rule round_even_near)
    apply simp
   apply simp
  apply simp
  done

lemma near_tie_80 [binary64]:
  "sub64 (Fin (- (8643454593913703 / 18014398509481984))) (Fin (3781511384837245 / 9007199254740992)) = Fin (- (506452417612131 / 562949953421312))"
  unfolding sub64_Fin
  apply (rule fl_neg [where e = "- 1" and m = "8103238681794096", THEN trans])
       apply simp
      apply simp
     apply simp
    apply (rule round_even_tie [where f = "8103238681794096"])
     apply simp
    apply simp
   apply simp
  apply simp
  done

lemma near_tie_81 [binary64]:
  "div64 (Fin (- 23)) (Fin (586640717067385 / 35184372088832)) = Fin (- (3106241494687737 / 2251799813685248))"
  apply (subst div64_Fin)
   apply simp
  apply (rule fl_neg [where e = "0" and m = "6212482989375474", THEN trans])
       apply simp
      apply simp
     apply simp
    apply (rule round_even_near)
    apply simp
   apply simp
  apply simp
  done

lemma near_tie_82 [binary64]:
  "sub64 (Fin (- (8643454593913703 / 18014398509481984))) (Fin (- (3106241494687737 / 2251799813685248))) = Fin (506452417612131 / 562949953421312)"
  unfolding sub64_Fin
  apply (rule fl_pos [where e = "- 1" and m = "8103238681794096", THEN trans])
       apply simp
      apply simp
     apply simp
    apply (rule round_even_tie [where f = "8103238681794096"])
     apply simp
    apply simp
   apply simp
  apply simp
  done

lemma near_tie_83 [binary64]:
  "mul64 (Fin (506452417612131 / 562949953421312)) (Fin (506452417612131 / 562949953421312)) = Fin (3644999698411373 / 4503599627370496)"
  unfolding mul64_Fin
  apply (rule fl_pos [where e = "- 1" and m = "7289999396822746", THEN trans])
       apply simp
      apply simp
     apply simp
    apply (rule round_even_near)
    apply simp
   apply simp
  apply simp
  done

lemma near_tie_84 [binary64]:
  "div64 (Fin 16) (Fin (586640717067385 / 35184372088832)) = Fin (8643454593913703 / 9007199254740992)"
  apply (subst div64_Fin)
   apply simp
  apply (rule fl_pos [where e = "- 1" and m = "8643454593913703", THEN trans])
       apply simp
      apply simp
     apply simp
    apply (rule round_even_near)
    apply simp
   apply simp
  apply simp
  done

lemma near_tie_85 [binary64]:
  "sub64 (Fin (- (8643454593913703 / 18014398509481984))) (Fin (8643454593913703 / 9007199254740992)) = Fin (- (6482590945435277 / 4503599627370496))"
  unfolding sub64_Fin
  apply (rule fl_neg [where e = "0" and m = "6482590945435277", THEN trans])
       apply simp
      apply simp
     apply simp
    apply (rule round_even_near)
    apply simp
   apply simp
  apply simp
  done

lemma near_tie_86 [binary64]:
  "mul64 (Fin (- (6482590945435277 / 4503599627370496))) (Fin (- (6482590945435277 / 4503599627370496))) = Fin (2332799806983279 / 1125899906842624)"
  unfolding mul64_Fin
  apply (rule fl_pos [where e = "1" and m = "4665599613966558", THEN trans])
       apply simp
      apply simp
     apply simp
    apply (rule round_even_near)
    apply simp
   apply simp
  apply simp
  done

lemma near_tie_87 [binary64]:
  "add64 (Fin (2332799806983279 / 1125899906842624)) (Fin (5066549580791807 / 1125899906842624)) = Fin (3699674693887543 / 562949953421312)"
  unfolding add64_Fin
  apply (rule fl_pos [where e = "2" and m = "7399349387775086", THEN trans])
       apply simp
      apply simp
     apply simp
    apply (rule round_even_near)
    apply simp
   apply simp
  apply simp
  done

lemma near_tie_88 [binary64]:
  "Math_sqrt64 (Fin (3699674693887543 / 562949953421312)) = Fin (360791811211639 / 140737488355328)"
  apply (subst Math_sqrt64_Fin)
   apply simp
  apply (rule fl_sqrt [where e = "1" and m = "5772668979386224", THEN trans])
         apply (simp add: power2_eq_square)
         apply (simp add: power2_eq_square)
         apply (simp add: power2_eq_square)
         apply (simp add: power2_eq_square)
         apply (simp add: power2_eq_square)
         apply (simp add: power2_eq_square)
         apply (simp add: power2_eq_square)
         apply (simp add: power2_eq_square)
  done

lemma near_tie_89 [binary64]:
  "sub64 (Fin (506452417612131 / 562949953421312)) (Fin (506452417612131 / 562949953421312)) = Fin 0"
  by (simp add: sub64_Fin)

lemma near_tie_90 [binary64]:
  "sub64 (Fin (506452417612131 / 562949953421312)) (Fin (360791811211639 / 140737488355328)) = Fin (- (936714827234425 / 562949953421312))"
  unfolding sub64_Fin
  apply (rule fl_neg [where e = "0" and m = "7493718617875400", THEN trans])
       apply simp
      apply simp
     apply simp
    apply (rule round_even_near)
    apply simp
   apply simp
  apply simp
  done

lemma near_tie_91 [binary64]:
  "sub64 (Fin (360791811211639 / 140737488355328)) (Fin (506452417612131 / 562949953421312)) = Fin (936714827234425 / 562949953421312)"
  unfolding sub64_Fin
  apply (rule fl_pos [where e = "0" and m = "7493718617875400", THEN trans])
       apply simp
      apply simp
     apply simp
    apply (rule round_even_near)
    apply simp
   apply simp
  apply simp
  done

lemma near_tie_92 [binary64]:
  "sub64 (Fin 35) (Fin (8631899285793451 / 281474976710656)) = Fin (1219724899079509 / 281474976710656)"
  unfolding sub64_Fin
  apply (rule fl_pos [where e = "2" and m = "4878899596318036", THEN trans])
       apply simp
      apply simp
     apply simp
    apply (rule round_even_near)
    apply simp
   apply simp
  apply simp
  done

lemma near_tie_93 [binary64]:
  "div64 (Fin (1219724899079509 / 281474976710656)) (Fin (6257500982052107 / 1125899906842624)) = Fin (7022806857554881 / 9007199254740992)"
  apply (subst div64_Fin)
   apply simp
  apply (rule fl_pos [where e = "- 1" and m = "7022806857554881", THEN trans])
       apply simp
      apply simp
     apply simp
    apply (rule round_even_near)
    apply simp
   apply simp
  apply simp
  done

lemma near_tie_94 [binary64]:
  "sub64 (Fin 100000) (Fin (6894854165845333 / 68719476736)) = Fin (- (22906492245333 / 68719476736))"
  unfolding sub64_Fin
  apply (rule fl_neg [where e = "8" and m = "5864062014805248", THEN trans])
       apply simp
      apply simp
     apply simp
    apply (rule round_even_near)
    apply simp
   apply simp
  apply simp
  done

lemma near_tie_95 [binary64]:
  "div64 (Fin (- (22906492245333 / 68719476736))) (Fin (1036629503991825 / 137438953472)) = Fin (- (398065729532855 / 9007199254740992))"
  apply (subst div64_Fin)
   apply simp
  apply (rule fl_neg [where e = "- 5" and m = "6369051672525680", THEN trans])
       apply simp
      apply simp
     apply simp
    apply (rule round_even_near)
    apply simp
   apply simp
  apply simp
  done

lemma near_tie_96 [binary64]:
  "sub64 (Fin (7022806857554881 / 9007199254740992)) (Fin (3781511384837243 / 9007199254740992)) = Fin (1620647736358819 / 4503599627370496)"
  unfolding sub64_Fin
  apply (rule fl_pos [where e = "- 2" and m = "6482590945435276", THEN trans])
       apply simp
      apply simp
     apply simp
    apply (rule round_even_near)
    apply simp
   apply simp
  apply simp
  done

lemma near_tie_97 [binary64]:
  "sub64 (Fin (- (398065729532855 / 9007199254740992))) (Fin (- (6369051672525767 / 9007199254740992))) = Fin (373186621437057 / 562949953421312)"
  unfolding sub64_Fin
  apply (rule fl_pos [where e = "- 1" and m = "5970985942992912", THEN trans])
       apply simp
      apply simp
     apply simp
    apply (rule round_even_near)
    apply simp
   apply simp
  apply simp
  done

lemma near_tie_98 [binary64]:
  "mul64 (Fin (1620647736358819 / 4503599627370496)) (Fin (1620647736358819 / 4503599627370496)) = Fin (1166399903491639 / 9007199254740992)"
  unfolding mul64_Fin
  apply (rule fl_pos [where e = "- 3" and m = "4665599613966556", THEN trans])
       apply simp
      apply simp
     apply simp
    apply (rule round_even_near)
    apply simp
   apply simp
  apply simp
  done

lemma near_tie_99 [binary64]:
  "mul64 (Fin (373186621437057 / 562949953421312)) (Fin (373186621437057 / 562949953421312)) = Fin (7916483719987201 / 18014398509481984)"
  unfolding mul64_Fin
  apply (rule fl_pos [where e = "- 2" and m = "7916483719987201", THEN trans])
       apply simp
      apply simp
     apply simp
    apply (rule round_even_near)
    apply simp
   apply simp
  apply simp
  done

lemma near_tie_100 [binary64]:
  "add64 (Fin (1166399903491639 / 9007199254740992)) (Fin (7916483719987201 / 18014398509481984)) = Fin (640580220435655 / 1125899906842624)"
  unfolding add64_Fin
  apply (rule fl_pos [where e = "- 1" and m = "5124641763485240", THEN trans])
       apply simp
      apply simp
     apply simp
    apply (rule round_even_tie [where f = "5124641763485239"])
     apply simp
    apply simp
   apply simp
  apply simp
  done

lemma near_tie_101 [binary64]:
  "Math_sqrt64 (Fin (640580220435655 / 1125899906842624)) = Fin (3397008591131277 / 4503599627370496)"
  apply (subst Math_sqrt64_Fin)
   apply simp
  apply (rule fl_sqrt [where e = "- 1" and m = "6794017182262554", THEN trans])
         apply (simp add: power2_eq_square)
         apply (simp add: power2_eq_square)
         apply (simp add: power2_eq_square)
         apply (simp add: power2_eq_square)
         apply (simp add: power2_eq_square)
         apply (simp add: power2_eq_square)
         apply (simp add: power2_eq_square)
         apply (simp add: power2_eq_square)
  done

lemma near_tie_102 [binary64]:
  "sub64 (Fin (7022806857554881 / 9007199254740992)) (Fin (- (3106241494687737 / 2251799813685248))) = Fin (4861943209076457 / 2251799813685248)"
  unfolding sub64_Fin
  apply (rule fl_pos [where e = "1" and m = "4861943209076457", THEN trans])
       apply simp
      apply simp
     apply simp
    apply (rule round_even_near)
    apply simp
   apply simp
  apply simp
  done

lemma near_tie_103 [binary64]:
  "mul64 (Fin (4861943209076457 / 2251799813685248)) (Fin (4861943209076457 / 2251799813685248)) = Fin (656099945714047 / 140737488355328)"
  unfolding mul64_Fin
  apply (rule fl_pos [where e = "2" and m = "5248799565712376", THEN trans])
       apply simp
      apply simp
     apply simp
    apply (rule round_even_near)
    apply simp
   apply simp
  apply simp
  done

lemma near_tie_104 [binary64]:
  "add64 (Fin (656099945714047 / 140737488355328)) (Fin (7916483719987201 / 18014398509481984)) = Fin (717947474776447 / 140737488355328)"
  unfolding add64_Fin
  apply (rule fl_pos [where e = "2" and m = "5743579798211576", THEN trans])
       apply simp
      apply simp
     apply simp
    apply (rule round_even_near)
    apply simp
   apply simp
  apply simp
  done

lemma near_tie_105 [binary64]:
  "Math_sqrt64 (Fin (717947474776447 / 140737488355328)) = Fin (5085939818656761 / 2251799813685248)"
  apply (subst Math_sqrt64_Fin)
   apply simp
  apply (rule fl_sqrt [where e = "1" and m = "5085939818656761", THEN trans])
         apply (simp add: power2_eq_square)
         apply (simp add: power2_eq_square)
         apply (simp add: power2_eq_square)
         apply (simp add: power2_eq_square)
         apply (simp add: power2_eq_square)
         apply (simp add: power2_eq_square)
         apply (simp add: power2_eq_square)
         apply (simp add: power2_eq_square)
  done

lemma near_tie_106 [binary64]:
  "sub64 (Fin (7022806857554881 / 9007199254740992)) (Fin (2160863648478425 / 2251799813685248)) = Fin (- (1620647736358819 / 9007199254740992))"
  unfolding sub64_Fin
  apply (rule fl_neg [where e = "- 3" and m = "6482590945435276", THEN trans])
       apply simp
      apply simp
     apply simp
    apply (rule round_even_near)
    apply simp
   apply simp
  apply simp
  done

lemma near_tie_107 [binary64]:
  "sub64 (Fin (- (398065729532855 / 9007199254740992))) (Fin (6369051672525775 / 4503599627370496)) = Fin (- (3284042268646101 / 2251799813685248))"
  unfolding sub64_Fin
  apply (rule fl_neg [where e = "0" and m = "6568084537292202", THEN trans])
       apply simp
      apply simp
     apply simp
    apply (rule round_even_tie [where f = "6568084537292202"])
     apply simp
    apply simp
   apply simp
  apply simp
  done

lemma near_tie_108 [binary64]:
  "mul64 (Fin (- (1620647736358819 / 9007199254740992))) (Fin (- (1620647736358819 / 9007199254740992))) = Fin (1166399903491639 / 36028797018963968)"
  unfolding mul64_Fin
  apply (rule fl_pos [where e = "- 5" and m = "4665599613966556", THEN trans])
       apply simp
      apply simp
     apply simp
    apply (rule round_even_near)
    apply simp
   apply simp
  apply simp
  done

lemma near_tie_109 [binary64]:
  "mul64 (Fin (- (3284042268646101 / 2251799813685248))) (Fin (- (3284042268646101 / 2251799813685248))) = Fin (4789472650592255 / 2251799813685248)"
  unfolding mul64_Fin
  apply (rule fl_pos [where e = "1" and m = "4789472650592255", THEN trans])
       apply simp
      apply simp
     apply simp
    apply (rule round_even_near)
    apply simp
   apply simp
  apply simp
  done

lemma near_tie_110 [binary64]:
  "add64 (Fin (1166399903491639 / 36028797018963968)) (Fin (4789472650592255 / 2251799813685248)) = Fin (2431186322280241 / 1125899906842624)"
  unfolding add64_Fin
  apply (rule fl_pos [where e = "1" and m = "4862372644560482", THEN trans])
       apply simp
      apply simp
     apply simp
    apply (rule round_even_near)
    apply simp
   apply simp
  apply simp
  done

lemma near_tie_111 [binary64]:
  "Math_sqrt64 (Fin (2431186322280241 / 1125899906842624)) = Fin (6617881780476149 / 4503599627370496)"
  apply (subst Math_sqrt64_Fin)
   apply simp
  apply (rule fl_sqrt [where e = "0" and m = "6617881780476149", THEN trans])
         apply (simp add: power2_eq_square)
         apply (simp add: power2_eq_square)
         apply (simp add: power2_eq_square)
         apply (simp add: power2_eq_square)
         apply (simp add: power2_eq_square)
         apply (simp add: power2_eq_square)
         apply (simp add: power2_eq_square)
         apply (simp add: power2_eq_square)
  done

lemma near_tie_112 [binary64]:
  "sub64 (Fin (3397008591131277 / 4503599627370496)) (Fin (5085939818656761 / 2251799813685248)) = Fin (- (6774871046182245 / 4503599627370496))"
  unfolding sub64_Fin
  apply (rule fl_neg [where e = "0" and m = "6774871046182245", THEN trans])
       apply simp
      apply simp
     apply simp
    apply (rule round_even_near)
    apply simp
   apply simp
  apply simp
  done

lemma near_tie_113 [binary64]:
  "sub64 (Fin (3397008591131277 / 4503599627370496)) (Fin (6617881780476149 / 4503599627370496)) = Fin (- (402609148668109 / 562949953421312))"
  unfolding sub64_Fin
  apply (rule fl_neg [where e = "- 1" and m = "6441746378689744", THEN trans])
       apply simp
      apply simp
     apply simp
    apply (rule round_even_near)
    apply simp
   apply simp
  apply simp
  done

lemma near_tie_114 [binary64]:
  "sub64 (Fin (5085939818656761 / 2251799813685248)) (Fin (3397008591131277 / 4503599627370496)) = Fin (6774871046182245 / 4503599627370496)"
  unfolding sub64_Fin
  apply (rule fl_pos [where e = "0" and m = "6774871046182245", THEN trans])
       apply simp
      apply simp
     apply simp
    apply (rule round_even_near)
    apply simp
   apply simp
  apply simp
  done

lemma near_tie_115 [binary64]:
  "sub64 (Fin (5085939818656761 / 2251799813685248)) (Fin (6617881780476149 / 4503599627370496)) = Fin (3553997856837373 / 4503599627370496)"
  unfolding sub64_Fin
  apply (rule fl_pos [where e = "- 1" and m = "7107995713674746", THEN trans])
       apply simp
      apply simp
     apply simp
    apply (rule round_even_near)
    apply simp
   apply simp
  apply simp
  done

lemma near_tie_116 [binary64]:
  "sub64 (Fin (6617881780476149 / 4503599627370496)) (Fin (3397008591131277 / 4503599627370496)) = Fin (402609148668109 / 562949953421312)"
  unfolding sub64_Fin
  apply (rule fl_pos [where e = "- 1" and m = "6441746378689744", THEN trans])
       apply simp
      apply simp
     apply simp
    apply (rule round_even_near)
    apply simp
   apply simp
  apply simp
  done

lemma near_tie_117 [binary64]:
  "sub64 (Fin (6617881780476149 / 4503599627370496)) (Fin (5085939818656761 / 2251799813685248)) = Fin (- (3553997856837373 / 4503599627370496))"
  unfolding sub64_Fin
  apply (rule fl_neg [where e = "- 1" and m = "7107995713674746", THEN trans])
       apply simp
      apply simp
     apply simp
    apply (rule round_even_near)
    apply simp
   apply simp
  apply simp
  done

lemma near_tie_118 [binary64]:
  "mul64 (Fin 3) (Fin 35) = Fin 105"
  unfolding mul64_Fin
  apply (rule fl_pos [where e = "6" and m = "7388718138654720", THEN trans])
       apply simp
      apply simp
     apply simp
    apply (rule round_even_near)
    apply simp
   apply simp
  apply simp
  done

lemma near_tie_119 [binary64]:
  "sub64 (Fin 105) (Fin 92) = Fin 13"
  unfolding sub64_Fin
  apply (rule fl_pos [where e = "3" and m = "7318349394477056", THEN trans])
       apply simp
      apply simp
     apply simp
    apply (rule round_even_near)
    apply simp
   apply simp
  apply simp
  done

lemma near_tie_120 [binary64]:
  "div64 (Fin 13) (Fin (586640717067385 / 35184372088832)) = Fin (7022806857554883 / 9007199254740992)"
  apply (subst div64_Fin)
   apply simp
  apply (rule fl_pos [where e = "- 1" and m = "7022806857554883", THEN trans])
       apply simp
      apply simp
     apply simp
    apply (rule round_even_near)
    apply simp
   apply simp
  apply simp
  done

lemma near_tie_121 [binary64]:
  "sub64 (Fin (7022806857554883 / 9007199254740992)) (Fin (3781511384837245 / 9007199254740992)) = Fin (1620647736358819 / 4503599627370496)"
  unfolding sub64_Fin
  apply (rule fl_pos [where e = "- 2" and m = "6482590945435276", THEN trans])
       apply simp
      apply simp
     apply simp
    apply (rule round_even_near)
    apply simp
   apply simp
  apply simp
  done

lemma near_tie_122 [binary64]:
  "sub64 (Fin (7022806857554883 / 9007199254740992)) (Fin (- (3106241494687737 / 2251799813685248))) = Fin (2430971604538229 / 1125899906842624)"
  unfolding sub64_Fin
  apply (rule fl_pos [where e = "1" and m = "4861943209076458", THEN trans])
       apply simp
      apply simp
     apply simp
    apply (rule round_even_near)
    apply simp
   apply simp
  apply simp
  done

lemma near_tie_123 [binary64]:
  "mul64 (Fin (2430971604538229 / 1125899906842624)) (Fin (2430971604538229 / 1125899906842624)) = Fin (2624399782856189 / 562949953421312)"
  unfolding mul64_Fin
  apply (rule fl_pos [where e = "2" and m = "5248799565712378", THEN trans])
       apply simp
      apply simp
     apply simp
    apply (rule round_even_near)
    apply simp
   apply simp
  apply simp
  done

lemma near_tie_124 [binary64]:
  "add64 (Fin (2624399782856189 / 562949953421312)) (Fin (7916483719987201 / 18014398509481984)) = Fin (2871789899105789 / 562949953421312)"
  unfolding add64_Fin
  apply (rule fl_pos [where e = "2" and m = "5743579798211578", THEN trans])
       apply simp
      apply simp
     apply simp
    apply (rule round_even_near)
    apply simp
   apply simp
  apply simp
  done

lemma near_tie_125 [binary64]:
  "Math_sqrt64 (Fin (2871789899105789 / 562949953421312)) = Fin (5085939818656761 / 2251799813685248)"
  apply (subst Math_sqrt64_Fin)
   apply simp
  apply (rule fl_sqrt [where e = "1" and m = "5085939818656761", THEN trans])
         apply (simp add: power2_eq_square)
         apply (simp add: power2_eq_square)
         apply (simp add: power2_eq_square)
         apply (simp add: power2_eq_square)
         apply (simp add: power2_eq_square)
         apply (simp add: power2_eq_square)
         apply (simp add: power2_eq_square)
         apply (simp add: power2_eq_square)
  done

lemma near_tie_126 [binary64]:
  "sub64 (Fin (7022806857554883 / 9007199254740992)) (Fin (8643454593913703 / 9007199254740992)) = Fin (- (405161934089705 / 2251799813685248))"
  unfolding sub64_Fin
  apply (rule fl_neg [where e = "- 3" and m = "6482590945435280", THEN trans])
       apply simp
      apply simp
     apply simp
    apply (rule round_even_near)
    apply simp
   apply simp
  apply simp
  done

lemma near_tie_127 [binary64]:
  "mul64 (Fin (- (405161934089705 / 2251799813685248))) (Fin (- (405161934089705 / 2251799813685248))) = Fin (2332799806983281 / 72057594037927936)"
  unfolding mul64_Fin
  apply (rule fl_pos [where e = "- 5" and m = "4665599613966562", THEN trans])
       apply simp
      apply simp
     apply simp
    apply (rule round_even_near)
    apply simp
   apply simp
  apply simp
  done

lemma near_tie_128 [binary64]:
  "add64 (Fin (2332799806983281 / 72057594037927936)) (Fin (4789472650592255 / 2251799813685248)) = Fin (4862372644560483 / 2251799813685248)"
  unfolding add64_Fin
  apply (rule fl_pos [where e = "1" and m = "4862372644560483", THEN trans])
       apply simp
      apply simp
     apply simp
    apply (rule round_even_near)
    apply simp
   apply simp
  apply simp
  done

lemma near_tie_129 [binary64]:
  "Math_sqrt64 (Fin (4862372644560483 / 2251799813685248)) = Fin (6617881780476149 / 4503599627370496)"
  apply (subst Math_sqrt64_Fin)
   apply simp
  apply (rule fl_sqrt [where e = "0" and m = "6617881780476149", THEN trans])
         apply (simp add: power2_eq_square)
         apply (simp add: power2_eq_square)
         apply (simp add: power2_eq_square)
         apply (simp add: power2_eq_square)
         apply (simp add: power2_eq_square)
         apply (simp add: power2_eq_square)
         apply (simp add: power2_eq_square)
         apply (simp add: power2_eq_square)
  done

subsection \<open>The constant age 30.1 and the query age 45.1\<close>

lemma constant_age_1 [binary64]:
  "fl (301 / 10) = Fin (4236198399495373 / 140737488355328)"
  apply (rule fl_pos [where e = "4" and m = "8472396798990746", THEN trans])
       apply simp
      apply simp
     apply simp
    apply (rule round_even_near)
    apply simp
   apply simp
  apply simp
  done

lemma constant_age_2 [binary64]:
  "add64 (Fin 0) (Fin (4236198399495373 / 140737488355328)) = Fin (4236198399495373 / 140737488355328)"
  unfolding add64_Fin
  apply (rule fl_pos [where e = "4" and m = "8472396798990746", THEN trans])
       apply simp
      apply simp
     apply simp
    apply (rule round_even_near)
    apply simp
   apply simp
  apply simp
  done

lemma constant_age_3 [binary64]:
  "add64 (Fin (4236198399495373 / 140737488355328)) (Fin (4236198399495373 / 140737488355328)) = Fin (4236198399495373 / 70368744177664)"
  unfolding add64_Fin
  apply (rule fl_pos [where e = "5" and m = "8472396798990746", THEN trans])
       apply simp
      apply simp
     apply simp
    apply (rule round_even_near)
    apply simp
   apply simp
  apply simp
  done

lemma constant_age_4 [binary64]:
  "add64 (Fin (4236198399495373 / 70368744177664)) (Fin (4236198399495373 / 140737488355328)) = Fin (1588574399810765 / 17592186044416)"
  unfolding add64_Fin
  apply (rule fl_pos [where e = "6" and m = "6354297599243060", THEN trans])
       apply simp
      apply simp
     apply simp
    apply (rule round_even_tie [where f = "6354297599243059"])
     apply simp
    apply simp
   apply simp
  apply simp
  done

lemma constant_age_5 [binary64]:
  "div64 (Fin (1588574399810765 / 17592186044416)) (Fin 3) = Fin (8472396798990747 / 281474976710656)"
  apply (subst div64_Fin)
   apply simp
  apply (rule fl_pos [where e = "4" and m = "8472396798990747", THEN trans])
       apply simp
      apply simp
     apply simp
    apply (rule round_even_near)
    apply simp
   apply simp
  apply simp
  done

lemma constant_age_6 [binary64]:
  "sub64 (Fin (4236198399495373 / 140737488355328)) (Fin (8472396798990747 / 281474976710656)) = Fin (- (1 / 281474976710656))"
  unfolding sub64_Fin
  apply (rule fl_neg [where e = "- 48" and m = "4503599627370496", THEN trans])
       apply simp
      apply simp
     apply simp
    apply (rule round_even_near)
    apply simp
   apply simp
  apply simp
  done

lemma constant_age_7 [binary64]:
  "mul64 (Fin (- (1 / 281474976710656))) (Fin (- (1 / 281474976710656))) = Fin (1 / 79228162514264337593543950336)"
  unfolding mul64_Fin
  apply (rule fl_pos [where e = "- 96" and m = "4503599627370496", THEN trans])
       apply simp
      apply simp
     apply simp
    apply (rule round_even_near)
    apply simp
   apply simp
  apply simp
  done

lemma constant_age_8 [binary64]:
  "add64 (Fin 0) (Fin (1 / 79228162514264337593543950336)) = Fin (1 / 79228162514264337593543950336)"
  unfolding add64_Fin
  apply (rule fl_pos [where e = "- 96" and m = "4503599627370496", THEN trans])
       apply simp
      apply simp
     apply simp
    apply (rule round_even_near)
    apply simp
   apply simp
  apply simp
  done

lemma constant_age_9 [binary64]:
  "add64 (Fin (1 / 79228162514264337593543950336)) (Fin (1 / 79228162514264337593543950336)) = Fin (1 / 39614081257132168796771975168)"
  unfolding add64_Fin
  apply (rule fl_pos [where e = "- 95" and m = "4503599627370496", THEN trans])
       apply simp
      apply simp
     apply simp
    apply (rule round_even_near)
    apply simp
   apply simp
  apply simp
  done

lemma constant_age_10 [binary64]:
  "add64 (Fin (1 / 39614081257132168796771975168)) (Fin (1 / 79228162514264337593543950336)) = Fin (3 / 79228162514264337593543950336)"
  unfolding add64_Fin
  apply (rule fl_pos [where e = "- 95" and m = "6755399441055744", THEN trans])
       apply simp
      apply simp
     apply simp
    apply (rule round_even_near)
    apply simp
   apply simp
  apply simp
  done

lemma constant_age_11 [binary64]:
  "div64 (Fin (3 / 79228162514264337593543950336)) (Fin 3) = Fin (1 / 79228162514264337593543950336)"
  apply (subst div64_Fin)
   apply simp
  apply (rule fl_pos [where e = "- 96" and m = "4503599627370496", THEN trans])
       apply simp
      apply simp
     apply simp
    apply (rule round_even_near)
    apply simp
   apply simp
  apply simp
  done

lemma constant_age_12 [binary64]:
  "Math_sqrt64 (Fin (1 / 79228162514264337593543950336)) = Fin (1 / 281474976710656)"
  apply (subst Math_sqrt64_Fin)
   apply simp
  apply (rule fl_sqrt [where e = "- 48" and m = "4503599627370496", THEN trans])
         apply (simp add: power2_eq_square)
         apply (simp add: power2_eq_square)
         apply (simp add: power2_eq_square)
         apply (simp add: power2_eq_square)
         apply (simp add: power2_eq_square)
         apply (simp add: power2_eq_square)
         apply (simp add: power2_eq_square)
         apply (simp add: power2_eq_square)
  done

lemma constant_age_13 [binary64]:
  "add64 (Fin 0) (Fin 20000) = Fin 20000"
  unfolding add64_Fin
  apply (rule fl_pos [where e = "14" and m = "5497558138880000", THEN trans])
       apply simp
      apply simp
     apply simp
    apply (rule round_even_near)
    apply simp
   apply simp
  apply simp
  done

lemma constant_age_14 [binary64]:
  "add64 (Fin 20000) (Fin 21000) = Fin 41000"
  unfolding add64_Fin
  apply (rule fl_pos [where e = "15" and m = "5634997092352000", THEN trans])
       apply simp
      apply simp
     apply simp
    apply (rule round_even_near)
    apply simp
   apply simp
  apply simp
  done

lemma constant_age_15 [binary64]:
  "add64 (Fin 41000) (Fin 22000) = Fin 63000"
  unfolding add64_Fin
  apply (rule fl_pos [where e = "15" and m = "8658654068736000", THEN trans])
       apply simp
      apply simp
     apply simp
    apply (rule round_even_near)
    apply simp
   apply simp
  apply simp
  done

lemma constant_age_16 [binary64]:
  "div64 (Fin 63000) (Fin 3) = Fin 21000"
  apply (subst div64_Fin)
   apply simp
  apply (rule fl_pos [where e = "14" and m = "5772436045824000", THEN trans])
       apply simp
      apply simp
     apply simp
    apply (rule round_even_near)
    apply simp
   apply simp
  apply simp
  done

lemma constant_age_17 [binary64]:
  "sub64 (Fin 20000) (Fin 21000) = Fin (- 1000)"
  unfolding sub64_Fin
  apply (rule fl_neg [where e = "9" and m = "8796093022208000", THEN trans])
       apply simp
      apply simp
     apply simp
    apply (rule round_even_near)
    apply simp
   apply simp
  apply simp
  done

lemma constant_age_18 [binary64]:
  "mul64 (Fin (- 1000)) (Fin (- 1000)) = Fin 1000000"
  unfolding mul64_Fin
  apply (rule fl_pos [where e = "19" and m = "8589934592000000", THEN trans])
       apply simp
      apply simp
     apply simp
    apply (rule round_even_near)
    apply simp
   apply simp
  apply simp
  done

lemma constant_age_19 [binary64]:
  "add64 (Fin 0) (Fin 1000000) = Fin 1000000"
  unfolding add64_Fin
  apply (rule fl_pos [where e = "19" and m = "8589934592000000", THEN trans])
       apply simp
      apply simp
     apply simp
    apply (rule round_even_near)
    apply simp
   apply simp
  apply simp
  done

lemma constant_age_20 [binary64]:
  "sub64 (Fin 21000) (Fin 21000) = Fin 0"
  by (simp add: sub64_Fin)

lemma constant_age_21 [binary64]:
  "mul64 (Fin 0) (Fin 0) = Fin 0"
  by (simp add: mul64_Fin)

lemma constant_age_22 [binary64]:
  "add64 (Fin 1000000) (Fin 0) = Fin 1000000"
  unfolding add64_Fin
  apply (rule fl_pos [where e = "19" and m = "8589934592000000", THEN trans])
       apply simp
      apply simp
     apply simp
    apply (rule round_even_near)
    apply simp
   apply simp
  apply simp
  done

lemma constant_age_23 [binary64]:
  "sub64 (Fin 22000) (Fin 21000) = Fin 1000"
  unfolding sub64_Fin
  apply (rule fl_pos [where e = "9" and m = "8796093022208000", THEN trans])
       apply simp
      apply simp
     apply simp
    apply (rule round_even_near)
    apply simp
   apply simp
  apply simp
  done

lemma constant_age_24 [binary64]:
  "mul64 (Fin 1000) (Fin 1000) = Fin 1000000"
  unfolding mul64_Fin
  apply (rule fl_pos [where e = "19" and m = "8589934592000000", THEN trans])
       apply simp
      apply simp
     apply simp
    apply (rule round_even_near)
    apply simp
   apply simp
  apply simp
  done

lemma constant_age_25 [binary64]:
  "add64 (Fin 1000000) (Fin 1000000) = Fin 2000000"
  unfolding add64_Fin
  apply (rule fl_pos [where e = "20" and m = "8589934592000000", THEN trans])
       apply simp
      apply simp
     apply simp
    apply (rule round_even_near)
    apply simp
   apply simp
  apply simp
  done

lemma constant_age_26 [binary64]:
  "div64 (Fin 2000000) (Fin 3) = Fin (5726623061333333 / 8589934592)"
  apply (subst div64_Fin)
   apply simp
  apply (rule fl_pos [where e = "19" and m = "5726623061333333", THEN trans])
       apply simp
      apply simp
     apply simp
    apply (rule round_even_near)
    apply simp
   apply simp
  apply simp
  done

lemma constant_age_27 [binary64]:
  "Math_sqrt64 (Fin (5726623061333333 / 8589934592)) = Fin (1795494969538765 / 2199023255552)"
  apply (subst Math_sqrt64_Fin)
   apply simp
  apply (rule fl_sqrt [where e = "9" and m = "7181979878155060", THEN trans])
         apply (simp add: power2_eq_square)
         apply (simp add: power2_eq_square)
         apply (simp add: power2_eq_square)
         apply (simp add: power2_eq_square)
         apply (simp add: power2_eq_square)
         apply (simp add: power2_eq_square)
         apply (simp add: power2_eq_square)
         apply (simp add: power2_eq_square)
  done

lemma constant_age_28 [binary64]:
  "fl (451 / 10) = Fin (6347260724825293 / 140737488355328)"
  apply (rule fl_pos [where e = "5" and m = "6347260724825293", THEN trans])
       apply simp
      apply simp
     apply simp
    apply (rule round_even_near)
    apply simp
   apply simp
  apply simp
  done

lemma constant_age_29 [binary64]:
  "sub64 (Fin (6347260724825293 / 140737488355328)) (Fin (8472396798990747 / 281474976710656)) = Fin (4222124650659839 / 281474976710656)"
  unfolding sub64_Fin
  apply (rule fl_pos [where e = "3" and m = "8444249301319678", THEN trans])
       apply simp
      apply simp
     apply simp
    apply (rule round_even_near)
    apply simp
   apply simp
  apply simp
  done

lemma constant_age_30 [binary64]:
  "div64 (Fin (4222124650659839 / 281474976710656)) (Fin (1 / 281474976710656)) = Fin 4222124650659839"
  apply (subst div64_Fin)
   apply simp
  apply (rule fl_pos [where e = "51" and m = "8444249301319678", THEN trans])
       apply simp
      apply simp
     apply simp
    apply (rule round_even_near)
    apply simp
   apply simp
  apply simp
  done

lemma constant_age_31 [binary64]:
  "sub64 (Fin (6347260724825293 / 140737488355328)) (Fin (4236198399495373 / 140737488355328)) = Fin 15"
  unfolding sub64_Fin
  apply (rule fl_pos [where e = "3" and m = "8444249301319680", THEN trans])
       apply simp
      apply simp
     apply simp
    apply (rule round_even_near)
    apply simp
   apply simp
  apply simp
  done

subsection \<open>The ages that overflow\<close>

lemma huge_age_1 [binary64]:
  "fl (10 ^ 308) = Fin 100000000000000001097906362944045541740492309677311846336810682903157585404911491537163328978494688899061249669721172515611590283743140088328307009198146046031271664502933027185697489699588559043338384466165001178426897626212945177628091195786707458122783970171784415105291802893207873272974885715430223118336"
  apply (rule fl_pos [where e = "1023" and m = "5010420900022432", THEN trans])
       apply simp
      apply simp
     apply simp
    apply (rule round_even_near)
    apply simp
   apply simp
  apply simp
  done

lemma huge_age_2 [binary64]:
  "add64 (Fin 0) (Fin 100000000000000001097906362944045541740492309677311846336810682903157585404911491537163328978494688899061249669721172515611590283743140088328307009198146046031271664502933027185697489699588559043338384466165001178426897626212945177628091195786707458122783970171784415105291802893207873272974885715430223118336) = Fin 100000000000000001097906362944045541740492309677311846336810682903157585404911491537163328978494688899061249669721172515611590283743140088328307009198146046031271664502933027185697489699588559043338384466165001178426897626212945177628091195786707458122783970171784415105291802893207873272974885715430223118336"
  unfolding add64_Fin
  apply (rule fl_pos [where e = "1023" and m = "5010420900022432", THEN trans])
       apply simp
      apply simp
     apply simp
    apply (rule round_even_near)
    apply simp
   apply simp
  apply simp
  done

lemma huge_age_3 [binary64]:
  "add64 (Fin 100000000000000001097906362944045541740492309677311846336810682903157585404911491537163328978494688899061249669721172515611590283743140088328307009198146046031271664502933027185697489699588559043338384466165001178426897626212945177628091195786707458122783970171784415105291802893207873272974885715430223118336) (Fin 100000000000000001097906362944045541740492309677311846336810682903157585404911491537163328978494688899061249669721172515611590283743140088328307009198146046031271664502933027185697489699588559043338384466165001178426897626212945177628091195786707458122783970171784415105291802893207873272974885715430223118336) = PosInf"
  unfolding add64_Fin by (rule fl_overflow) simp

lemma huge_age_4 [binary64]:
  "add64 (Fin 0) (Fin 50000) = Fin 50000"
  unfolding add64_Fin
  apply (rule fl_pos [where e = "15" and m = "6871947673600000", THEN trans])
       apply simp
      apply simp
     apply simp
    apply (rule round_even_near)
    apply simp
   apply simp
  apply simp
  done

lemma huge_age_5 [binary64]:
  "add64 (Fin 50000) (Fin 50000) = Fin 100000"
  unfolding add64_Fin
  apply (rule fl_pos [where e = "16" and m = "6871947673600000", THEN trans])
       apply simp
      apply simp
     apply simp
    apply (rule round_even_near)
    apply simp
   apply simp
  apply simp
  done

lemma huge_age_6 [binary64]:
  "div64 (Fin 100000) (Fin 2) = Fin 50000"
  apply (subst div64_Fin)
   apply simp
  apply (rule fl_pos [where e = "15" and m = "6871947673600000", THEN trans])
       apply simp
      apply simp
     apply simp
    apply (rule round_even_near)
    apply simp
   apply simp
  apply simp
  done

lemma huge_age_7 [binary64]:
  "sub64 (Fin 50000) (Fin 50000) = Fin 0"
  by (simp add: sub64_Fin)

lemma huge_age_8 [binary64]:
  "mul64 (Fin 0) (Fin 0) = Fin 0"
  by (simp add: mul64_Fin)

lemma huge_age_9 [binary64]:
  "add64 (Fin 0) (Fin 0) = Fin 0"
  by (simp add: add64_Fin)

lemma huge_age_10 [binary64]:
  "div64 (Fin 0) (Fin 2) = Fin 0"
  by (simp add: div64_Fin)

lemma huge_age_11 [binary64]:
  "Math_sqrt64 (Fin 0) = Fin 0"
  by (simp add: Math_sqrt64_Fin)

lemma huge_age_12 [binary64]:
  "div64 (Fin 0) (Fin 1) = Fin 0"
  by (simp add: div64_Fin)

section \<open>Facts about the binary64 embedding\<close>

subsection \<open>The sort\<close>

lemma set_insert_by [simp]: "set (insert_by cmp x ys) = insert x (set ys)"
  by (induction ys) auto

lemma set_Array_sort [simp]: "set (Array_sort cmp xs) = set xs"
  by (induction xs) (simp_all add: Array_sort_def)

lemma mset_insert_by [simp]: "mset (insert_by cmp x ys) = add_mset x (mset ys)"
  by (induction ys) simp_all

lemma mset_Array_sort [simp]: "mset (Array_sort cmp xs) = mset xs"
  by (induction xs) (simp_all add: Array_sort_def)












subsection \<open>The training loop as an iterate\<close>

declare train_loop64.simps [simp del]

lemma train_loop64_funpow:
  "train_loop64 i n lr m sd ws = ((iteration64 lr m sd) ^^ (n - i)) ws"
proof (induction i n lr m sd ws rule: train_loop64.induct)
  case (1 i n lr m sd ws)
  show ?case
  proof (cases "i < n")
    case True
    then have "n - i = Suc (n - (i + 1))" by simp
    with True 1 show ?thesis
      by (subst train_loop64.simps) (simp add: funpow_Suc_right del: funpow.simps)
  next
    case False
    then show ?thesis by (subst train_loop64.simps) simp
  qed
qed

lemma funpow_absorbed:
  assumes "f x = y" "f y = y"
  shows "(f ^^ Suc n) x = y"
proof -
  have "(f ^^ Suc n) x = (f ^^ n) (f x)"
    by (simp only: funpow_Suc_right o_apply)
  also have "\<dots> = y"
    unfolding assms(1) using assms(2) by (rule funpow_fixed)
  finally show ?thesis .
qed

subsection \<open>What each constructor step leaves unchanged\<close>

lemma trainingData_calculateScaling64 [simp]:
  "trainingData (calculateScaling64 e) = trainingData e"
  by (simp add: calculateScaling64_def Let_def)

lemma trainingData_train64 [simp]:
  "trainingData (trainLogisticRegression64 e) = trainingData e"
  by (simp add: trainLogisticRegression64_def Let_def split: prod.splits)

lemma scaleParams_train64 [simp]:
  "scaleParams (trainLogisticRegression64 e) = scaleParams e"
  by (simp add: trainLogisticRegression64_def Let_def split: prod.splits)

lemma trainingData_constructor64 [simp]:
  "trainingData (MLEngine_constructor64 ds) = ds"
  by (simp add: MLEngine_constructor64_def Let_def)

lemma scale64_train [simp]: "scale64 (trainLogisticRegression64 e) = scale64 e"
  by (simp add: scale64_def fun_eq_iff)

lemma distances64_train [simp]: "distances64 (trainLogisticRegression64 e) = distances64 e"
  by (simp add: distances64_def fun_eq_iff)

lemma neighbors64_train [simp]: "neighbors64 (trainLogisticRegression64 e) = neighbors64 e"
  by (simp add: neighbors64_def fun_eq_iff)

lemma predictKNN64_train [simp]: "predictKNN64 (trainLogisticRegression64 e) = predictKNN64 e"
  by (simp add: predictKNN64_def fun_eq_iff)

lemma ranked64_train [simp]: "ranked64 (trainLogisticRegression64 e) = ranked64 e"
  by (simp add: ranked64_def fun_eq_iff)

lemma neighbor_positions64_train [simp]:
  "neighbor_positions64 (trainLogisticRegression64 e) = neighbor_positions64 e"
  by (simp add: neighbor_positions64_def fun_eq_iff)

subsection \<open>Training against the specified gradient descent\<close>








subsection \<open>Logistic-regression prediction\<close>

lemma predictLogisticRegression64_sigmoid:
  "predictLogisticRegression64 e age salary =
     \<lparr>purchased = (Fin 0.5 \<le> sigmoid64
         (add64 (add64 (mul64 (lrWeights e ! 0) (fst (scale64 e age salary)))
                       (mul64 (lrWeights e ! 1) (snd (scale64 e age salary))))
                (lrBias e))),
      probability = sigmoid64
         (add64 (add64 (mul64 (lrWeights e ! 0) (fst (scale64 e age salary)))
                       (mul64 (lrWeights e ! 1) (snd (scale64 e age salary))))
                (lrBias e))\<rparr>"
  by (simp add: predictLogisticRegression64_def sigmoid64_def Let_def split: prod.splits)

subsection \<open>Neighbours and their labels\<close>

lemma length_distances64 [simp]:
  "length (distances64 e age salary) = length (trainingData e)"
  by (simp add: distances64_def split: prod.splits)


lemma count_distances64:
  "length (filter (\<lambda>n. nb_purchased n = 1) (distances64 e age salary))
     = length (filter (\<lambda>d. Purchased d = 1) (trainingData e))"
proof -
  obtain sAge sSalary where s: "scale64 e age salary = (sAge, sSalary)"
    by (cases "scale64 e age salary")
  show ?thesis
    unfolding distances64_def s
    by (induction "trainingData e") (auto simp: filter_map o_def split: prod.splits)
qed











lemma predictKNN64_all:
  assumes "length (trainingData e) \<le> k"
  shows "predictKNN64 e age salary (Some k) =
     \<lparr>purchased = (div64 (num k) (Fin 2) < num (length (filter (\<lambda>d. Purchased d = 1) (trainingData e)))),
      probability = div64 (num (length (filter (\<lambda>d. Purchased d = 1) (trainingData e)))) (num k)\<rparr>"
  using assms
  by (simp add: predictKNN64_def neighbors64_def Let_def count_Array_sort count_distances64 del: num_Fin)

subsection \<open>Accuracy when every label is 1\<close>






subsection \<open>The engines of the empty training set and of the two huge ages\<close>

lemmas eval64 = MLEngine_constructor64_def calculateScaling64_def scale64_def distances64_def
  ranked64_def neighbor_positions64_def neighbors64_def predictKNN64_def reduce_sum64_def
  multiply_ages_def Array_sort_def logical_or_def num_def Math_pow64_2 Let_def
  zero_number_def one_number_def special64

lemma learning_rate: "fl 0.1 = Fin (3602879701896397 / 36028797018963968)"
  apply (rule fl_pos [where e = "- 4" and m = "7205759403792794", THEN trans])
       apply simp
      apply simp
     apply simp
    apply (rule round_even_near)
    apply simp
   apply simp
  apply simp
  done

lemma constructor64_empty:
  "MLEngine_constructor64 [] =
     \<lparr>trainingData = [], scaleParams = \<lparr>mean = (NaN, NaN), std = (Fin 1, Fin 1)\<rparr>,
      lrWeights = [NaN, NaN], lrBias = NaN\<rparr>"
proof -
  have first: "iteration64 (fl 0.1) (Fin 0) [] (Fin 0, Fin 0, Fin 0) = (NaN, NaN, NaN)"
    by (simp add: iteration64_def learning_rate zero_number_def minus_number_def special64)
  have fixed: "iteration64 (fl 0.1) (Fin 0) [] (NaN, NaN, NaN) = (NaN, NaN, NaN)"
    by (simp add: iteration64_def special64)
  have "((iteration64 (fl 0.1) (Fin 0) []) ^^ Suc 999) (Fin 0, Fin 0, Fin 0) = (NaN, NaN, NaN)"
    using first fixed by (rule funpow_absorbed)
  then have "train_loop64 0 1000 (fl 0.1) (Fin 0) [] (Fin 0, Fin 0, Fin 0) = (NaN, NaN, NaN)"
    by (simp add: train_loop64_funpow)
  then show ?thesis
    by (simp add: MLEngine_constructor64_def Let_def calculateScaling64_def
        trainLogisticRegression64_def reduce_sum64_def logical_or_def zero_number_def
        one_number_def special64)
qed

lemma huge_age_value:
  "huge_age_data =
     [\<lparr>Age = Fin 100000000000000001097906362944045541740492309677311846336810682903157585404911491537163328978494688899061249669721172515611590283743140088328307009198146046031271664502933027185697489699588559043338384466165001178426897626212945177628091195786707458122783970171784415105291802893207873272974885715430223118336,
        EstimatedSalary = Fin 50000, Purchased = 1\<rparr>,
      \<lparr>Age = Fin 100000000000000001097906362944045541740492309677311846336810682903157585404911491537163328978494688899061249669721172515611590283743140088328307009198146046031271664502933027185697489699588559043338384466165001178426897626212945177628091195786707458122783970171784415105291802893207873272974885715430223118336,
        EstimatedSalary = Fin 50000, Purchased = 1\<rparr>]"
  unfolding huge_age_data_def huge_age_1 ..

lemma constructor64_huge_age:
  "MLEngine_constructor64 huge_age_data =
     \<lparr>trainingData = huge_age_data,
      scaleParams = \<lparr>mean = (PosInf, Fin 50000), std = (PosInf, Fin 1)\<rparr>,
      lrWeights = [NaN, NaN], lrBias = NaN\<rparr>"
proof -
  let ?sd = "map (\<lambda>d. \<lparr>Age = Age d, EstimatedSalary = EstimatedSalary d, Purchased = Purchased d,
                        scaled = (NaN, Fin 0)\<rparr>) huge_age_data"
  let ?scaled = "\<lparr>trainingData = huge_age_data,
      scaleParams = \<lparr>mean = (PosInf, Fin 50000), std = (PosInf, Fin 1)\<rparr>,
      lrWeights = [Fin 0, Fin 0], lrBias = Fin 0\<rparr>"
  have sc: "calculateScaling64
     \<lparr>trainingData = huge_age_data, scaleParams = \<lparr>mean = (Fin 0, Fin 0), std = (Fin 1, Fin 1)\<rparr>,
      lrWeights = [Fin 0, Fin 0], lrBias = Fin 0\<rparr> = ?scaled"
    unfolding huge_age_value
    by (simp add: calculateScaling64_def reduce_sum64_def logical_or_def num_def Math_pow64_2
        Let_def zero_number_def one_number_def minus_number_def special64 binary64)
  have sd: "map (\<lambda>d. \<lparr>Age = Age d, EstimatedSalary = EstimatedSalary d, Purchased = Purchased d,
                       scaled = scale64 ?scaled (Age d) (EstimatedSalary d)\<rparr>) huge_age_data = ?sd"
    unfolding huge_age_value
    by (simp add: scale64_def minus_number_def special64 binary64)
  have first: "iteration64 (fl 0.1) (Fin 2) ?sd (Fin 0, Fin 0, Fin 0) = (NaN, NaN, NaN)"
    unfolding huge_age_value
    by (simp add: iteration64_def accumulate64_def Let_def number_defs special64)
  have fixed: "iteration64 (fl 0.1) (Fin 2) ?sd (NaN, NaN, NaN) = (NaN, NaN, NaN)"
    unfolding huge_age_value
    by (simp add: iteration64_def accumulate64_def Let_def number_defs special64)
  have "((iteration64 (fl 0.1) (Fin 2) ?sd) ^^ Suc 999) (Fin 0, Fin 0, Fin 0) = (NaN, NaN, NaN)"
    using first fixed by (rule funpow_absorbed)
  then have loop: "train_loop64 0 1000 (fl 0.1) (Fin 2) ?sd (Fin 0, Fin 0, Fin 0) = (NaN, NaN, NaN)"
    by (simp add: train_loop64_funpow)
  have len: "num (length huge_age_data) = Fin 2"
    by (simp add: huge_age_data_def)
  show ?thesis
    unfolding MLEngine_constructor64_def Let_def
    by (simp add: sc trainLogisticRegression64_def Let_def sd loop len zero_number_def
        one_number_def del: num_Fin)
qed

section \<open>Properties of the specification\<close>

subsection \<open>Construction\<close>

text \<open>
  C1 (as amended). The specification says that construction raises \<open>InvalidTrainingSet\<close>
  exactly for the empty sequence. The constructor never raises: for every sequence of
  records, empty or not, it returns an engine that holds the sequence; for the empty
  sequence the engine has the means \<^verbatim>\<open>NaN\<close> (0 / 0), the standard deviations 1
  (\<^verbatim>\<open>NaN || 1\<close>) and the weights and bias \<^verbatim>\<open>NaN\<close> (0 - Infinity * 0).
\<close>

theorem construct_never_raises:
  "construct ds \<noteq> Inl InvalidTrainingSet
   \<and> (\<exists>e. construct ds = Inr e \<and> trainingData e = ds)
   \<and> construct [] =
       Inr \<lparr>trainingData = [], scaleParams = \<lparr>mean = (NaN, NaN), std = (Fin 1, Fin 1)\<rparr>,
            lrWeights = [NaN, NaN], lrBias = NaN\<rparr>"
  by (simp add: construct_def constructor_empty)

text \<open>The claim as stated fails at the empty sequence: no error comes back.\<close>

theorem construct_empty_returns:
  "construct [] \<noteq> Inl InvalidTrainingSet"
  by (simp add: construct_def)

subsection \<open>k-nearest-neighbours with more neighbours asked for than records\<close>



subsection \<open>Accuracy\<close>



text \<open>
  C10. \<^verbatim>\<open>getAccuracy('KNN')\<close> calls \<^verbatim>\<open>predictKNN\<close> without a third argument, so every
  training record is classified with the default \<open>k = 5\<close>; \<^verbatim>\<open>getAccuracy\<close> has no
  parameter through which another \<open>k\<close> could be passed.
\<close>

theorem getAccuracy_KNN_default_k:
  "getAccuracy e KNN =
     num (length (filter (\<lambda>d. (if purchased (predictKNN e (Age d) (EstimatedSalary d) (Some 5))
                                then 1 else 0) = Purchased d) (trainingData e)))
       / num (length (trainingData e))"
  by (simp add: getAccuracy_def foldl_count_correct predictKNN_default del: num_Fin)

subsection \<open>Standardization of a constant feature\<close>

text \<open>
  C6. The specification says that a feature with zero population standard deviation gets
  the deviation 1 and is standardized to its centred value. \<^verbatim>\<open>calculateScaling\<close> stores
  \<^verbatim>\<open>stdAge || 1\<close>, which replaces only a computed deviation that is exactly zero (or
  \<^verbatim>\<open>NaN\<close>). For three records of age 30.1 the computed mean is 30.100000000000005, one
  unit in the last place above the common age, so every computed deviation from the mean is
  \<open>-2\<^sup>-\<^sup>4\<^sup>8\<close>, the computed standard deviation is \<open>2\<^sup>-\<^sup>4\<^sup>8\<close>, not zero, and it is kept:
  the age 45.1, whose centred value is 15, is standardized to 4222124650659839.
\<close>

theorem constant_age_std_kept:
  "scaleParams (MLEngine_constructor64 constant_age_data) =
     \<lparr>mean = (Fin (8472396798990747 / 281474976710656), Fin 21000),
      std = (Fin (1 / 281474976710656), Fin (1795494969538765 / 2199023255552))\<rparr>
   \<and> sub64 (fl 45.1) (fl 30.1) = Fin 15
   \<and> fst (scale64 (MLEngine_constructor64 constant_age_data) (fl 45.1) salary)
       = Fin 4222124650659839"
  by (simp add: constant_age_data_def eval64 binary64)

subsection \<open>Logistic-regression prediction\<close>

text \<open>
  C4 (as amended). For every engine and all inputs, \<^verbatim>\<open>predictLogisticRegression\<close>
  standardizes the inputs with the stored scaling parameters, computes
  \<open>z = w1 * x1 + w2 * x2 + b\<close> and returns \<open>probability = 1 / (1 + e\<^sup>-\<^sup>z)\<close> with
  \<open>purchased\<close> true exactly when \<open>probability \<ge> 0.5\<close>. The probability is \<^verbatim>\<open>NaN\<close> when
  \<open>z\<close> is \<^verbatim>\<open>NaN\<close>, and then \<open>purchased\<close> is false; in every other case it lies in [0, 1].
  (The specification claims the range for every engine and all finite inputs.)
\<close>

theorem predictLogisticRegression64_sigmoid_range:
  "predictLogisticRegression64 e age salary =
     \<lparr>purchased = (Fin 0.5 \<le> sigmoid64
         (add64 (add64 (mul64 (lrWeights e ! 0) (fst (scale64 e age salary)))
                       (mul64 (lrWeights e ! 1) (snd (scale64 e age salary))))
                (lrBias e))),
      probability = sigmoid64
         (add64 (add64 (mul64 (lrWeights e ! 0) (fst (scale64 e age salary)))
                       (mul64 (lrWeights e ! 1) (snd (scale64 e age salary))))
                (lrBias e))\<rparr>
   \<and> sigmoid64 z = div64 1 (add64 1 (Math_exp64 (- z)))
   \<and> (probability (predictLogisticRegression64 e age salary) = NaN
      \<or> (Fin 0 \<le> probability (predictLogisticRegression64 e age salary)
         \<and> probability (predictLogisticRegression64 e age salary) \<le> Fin 1))
   \<and> (probability (predictLogisticRegression64 e age salary) = NaN)
       = (add64 (add64 (mul64 (lrWeights e ! 0) (fst (scale64 e age salary)))
                       (mul64 (lrWeights e ! 1) (snd (scale64 e age salary))))
                (lrBias e) = NaN)
   \<and> \<not> (probability (predictLogisticRegression64 e age salary) = NaN
        \<and> purchased (predictLogisticRegression64 e age salary))"
  unfolding predictLogisticRegression64_sigmoid Prediction.select_convs
  using sigmoid64_cases [of "add64 (add64 (mul64 (lrWeights e ! 0) (fst (scale64 e age salary)))
                       (mul64 (lrWeights e ! 1) (snd (scale64 e age salary))))
                (lrBias e)"]
  by (auto simp add: sigmoid64_def)

text \<open>
  The range fails for finite inputs: the engine of the empty training set and the engine of
  two records of age \<open>10\<^sup>3\<^sup>0\<^sup>8\<close>, whose sum overflows, both have the weights \<^verbatim>\<open>NaN\<close>,
  and their probability is \<^verbatim>\<open>NaN\<close>.
\<close>

theorem predictLogisticRegression64_not_a_number:
  "probability (predictLogisticRegression64 (MLEngine_constructor64 []) (Fin 30) (Fin 50000)) = NaN
   \<and> \<not> Fin 0 \<le> probability (predictLogisticRegression64 (MLEngine_constructor64 [])
                               (Fin 30) (Fin 50000))
   \<and> probability (predictLogisticRegression64 (MLEngine_constructor64 huge_age_data)
                    (Fin 30) (Fin 50000)) = NaN
   \<and> \<not> Fin 0 \<le> probability (predictLogisticRegression64 (MLEngine_constructor64 huge_age_data)
                               (Fin 30) (Fin 50000))"
  by (simp add: predictLogisticRegression64_def constructor64_empty constructor64_huge_age
      scale64_def Let_def special64)

subsection \<open>Training\<close>


subsection \<open>k-nearest-neighbours prediction\<close>




subsection \<open>Accuracy on a training set whose labels are all 1\<close>




subsection \<open>Scale invariance of the neighbours\<close>





end
